theory Spec2Isabelle
  imports Main "HOL-Library.Log_Nat"
begin

section \<open>Guess evaluation\<close>

text \<open>
  The two classes \<open>WordleGame\<close> and \<open>GameStateManager\<close> each carry a method
  \<open>evaluateGuess\<close>. Both split the target word and the guess into arrays of one-character
  strings, overwrite consumed entries with \<open>null\<close>, and run two loops over the indices
  \<open>0 .. wordLength - 1\<close>. An array entry is therefore a character, \<open>null\<close>, or (when
  an index is read past the end of the array) \<open>undefined\<close>.
\<close>

datatype letterState = Correct | Present | Absent | Unused

datatype cell = Chr char | Null | Undefined

text \<open>
  Reading an array past its end yields \<open>undefined\<close>; writing past its end extends the
  array, the skipped positions being holes (which read as \<open>undefined\<close>).
\<close>

definition aget :: "cell list \<Rightarrow> nat \<Rightarrow> cell" where
  "aget xs i = (if i < length xs then xs ! i else Undefined)"

definition aset :: "cell list \<Rightarrow> nat \<Rightarrow> cell \<Rightarrow> cell list" where
  "aset xs i v =
     (if i < length xs then xs[i := v]
      else xs @ replicate (i - length xs) Undefined @ [v])"

text \<open>
  \<open>Array.prototype.indexOf\<close> compares with strict equality and skips holes, so it never
  finds \<open>undefined\<close> in these arrays (no \<open>undefined\<close> value is ever stored).
\<close>

fun indexOf :: "cell list \<Rightarrow> cell \<Rightarrow> nat option" where
  "indexOf [] v = None"
| "indexOf (x # xs) v =
     (if x = v \<and> x \<noteq> Undefined then Some 0 else map_option Suc (indexOf xs v))"

type_synonym evalState = "letterState list \<times> cell list \<times> cell list"

text \<open>Body of the first loop: mark the letters in the right position.\<close>

fun markExact :: "nat \<Rightarrow> evalState \<Rightarrow> evalState" where
  "markExact i (res, targetLetters, guessLetters) =
     (if aget guessLetters i = aget targetLetters i
      then (res[i := Correct], aset targetLetters i Null, aset guessLetters i Null)
      else (res, targetLetters, guessLetters))"

text \<open>Body of the second loop: mark the letters that occur elsewhere in the target.\<close>

fun markPresent :: "nat \<Rightarrow> evalState \<Rightarrow> evalState" where
  "markPresent i (res, targetLetters, guessLetters) =
     (if aget guessLetters i \<noteq> Null
      then (case indexOf targetLetters (aget guessLetters i) of
              Some targetIndex \<Rightarrow>
                (res[i := Present], targetLetters[targetIndex := Null], guessLetters)
            | None \<Rightarrow> (res, targetLetters, guessLetters))
      else (res, targetLetters, guessLetters))"

text \<open>
  The common body of both \<open>evaluateGuess\<close> methods, for a loop bound \<open>n\<close>
  (\<open>this.wordLength\<close> in \<open>WordleGame\<close>, the literal \<open>5\<close> in \<open>GameStateManager\<close>).
\<close>

definition evaluate :: "nat \<Rightarrow> string \<Rightarrow> string \<Rightarrow> letterState list" where
  "evaluate n target guess =
     (let st0 = (replicate n Absent, map Chr target, map Chr guess);
          st1 = fold markExact [0..<n] st0;
          st2 = fold markPresent [0..<n] st1
      in fst st2)"

text \<open>\<open>GameStateManager.evaluateGuess(guess, targetWord)\<close>.\<close>

definition evaluateGuess :: "string \<Rightarrow> string \<Rightarrow> letterState list" where
  "evaluateGuess guess target = evaluate 5 target guess"


section \<open>The game session of class WordleGame\<close>

datatype gameStatus = Playing | Won | Lost

text \<open>
  An entry of the \<open>guesses\<close> array. \<open>GameStateManager\<close> also stores a timestamp in
  each entry; an entry pushed by \<open>WordleGame\<close> has no such property (\<open>None\<close>).
\<close>

record guessEntry =
  word :: string
  result :: "letterState list"
  timestamp :: "int option"

text \<open>
  The fields of a \<open>WordleGame\<close> object. \<open>usedLetters\<close> is a JavaScript \<open>Set\<close> of
  one-character strings, which keeps its elements in insertion order: a list without
  repetitions.
\<close>

record wordleGame =
  wordList :: "string list"
  targetWord :: string
  currentGuess :: string
  guesses :: "guessEntry list"
  maxGuesses :: nat
  wordLength :: nat
  gameStatus :: gameStatus
  usedLetters :: "char list"

text \<open>
  \<open>String.prototype.toUpperCase\<close> is a function of the language, defined on all of
  Unicode (it maps the sharp s to \<open>SS\<close>, for instance). The methods that call it take
  it as their first argument \<open>toUpperCase\<close>, and what is proved of them holds for every
  such function. On strings of ASCII characters it is \<open>asciiUpperCase\<close>, which is used
  to evaluate the methods at ASCII inputs; the letters \<open>a\<close> to \<open>z\<close> have the codes 97 to
  122.
\<close>

definition upperChar :: "char \<Rightarrow> char" where
  "upperChar c =
     (if 97 \<le> (of_char c :: nat) \<and> (of_char c :: nat) \<le> 122
      then char_of ((of_char c :: nat) - 32) else c)"

definition asciiUpperCase :: "string \<Rightarrow> string" where
  "asciiUpperCase s = map upperChar s"

text \<open>
  \<open>selectRandomWord\<close>: the argument \<open>r\<close> stands for the random draw
  \<open>Math.floor(Math.random() * wordList.length)\<close>, an index below the length of the list.
\<close>

definition selectRandomWord :: "(string \<Rightarrow> string) \<Rightarrow> string list \<Rightarrow> nat \<Rightarrow> string" where
  "selectRandomWord toUpperCase wl r =
     (if length wl = 0 then ''WORLD'' else toUpperCase (wl ! (r mod length wl)))"

definition setAdd :: "char \<Rightarrow> char list \<Rightarrow> char list" where
  "setAdd c s = (if c \<in> set s then s else s @ [c])"

text \<open>The constructor followed by \<open>initializeGame\<close>.\<close>

definition newWordleGame :: "(string \<Rightarrow> string) \<Rightarrow> string list \<Rightarrow> nat \<Rightarrow> wordleGame" where
  "newWordleGame toUpperCase wl r =
     \<lparr> wordList = wl, targetWord = selectRandomWord toUpperCase wl r, currentGuess = [],
       guesses = [], maxGuesses = 6, wordLength = 5, gameStatus = Playing,
       usedLetters = [] \<rparr>"

definition addLetter :: "(string \<Rightarrow> string) \<Rightarrow> string \<Rightarrow> wordleGame \<Rightarrow> bool \<times> wordleGame" where
  "addLetter toUpperCase letter g =
     (if gameStatus g \<noteq> Playing then (False, g)
      else if length (currentGuess g) < wordLength g
      then (True, g\<lparr>currentGuess := currentGuess g @ toUpperCase letter\<rparr>)
      else (False, g))"

definition removeLetter :: "wordleGame \<Rightarrow> bool \<times> wordleGame" where
  "removeLetter g =
     (if gameStatus g \<noteq> Playing then (False, g)
      else if length (currentGuess g) > 0
      then (True, g\<lparr>currentGuess := butlast (currentGuess g)\<rparr>)
      else (False, g))"

text \<open>\<open>isValidWord\<close> tests the regular expression \<open>/^[A-Z]{5}$/\<close> (codes 65 to 90).\<close>

definition isValidWord :: "string \<Rightarrow> bool" where
  "isValidWord w =
     (length w = 5 \<and> list_all (\<lambda>c. 65 \<le> (of_char c :: nat) \<and> (of_char c :: nat) \<le> 90) w)"

text \<open>\<open>WordleGame.evaluateGuess(guess)\<close>.\<close>

definition evaluateGuessW :: "wordleGame \<Rightarrow> string \<Rightarrow> letterState list" where
  "evaluateGuessW g guess = evaluate (wordLength g) (targetWord g) guess"

text \<open>
  \<open>WordleGame.checkGameStatus()\<close>; the last guess is \<open>undefined\<close> when there is no
  guess yet.
\<close>

definition checkGameStatusW :: "wordleGame \<Rightarrow> wordleGame" where
  "checkGameStatusW g =
     (if guesses g \<noteq> [] \<and> word (last (guesses g)) = targetWord g
      then g\<lparr>gameStatus := Won\<rparr>
      else if length (guesses g) \<ge> maxGuesses g
      then g\<lparr>gameStatus := Lost\<rparr>
      else g)"

text \<open>
  \<open>WordleGame.submitGuess()\<close>: the returned boolean and the game after the call.
\<close>

definition submitGuessW :: "wordleGame \<Rightarrow> bool \<times> wordleGame" where
  "submitGuessW g =
     (if gameStatus g \<noteq> Playing then (False, g)
      else if length (currentGuess g) \<noteq> wordLength g then (False, g)
      else if \<not> isValidWord (currentGuess g) then (False, g)
      else
        (let res = evaluateGuessW g (currentGuess g);
             g1 = g\<lparr>guesses := guesses g @
                     [\<lparr>word = currentGuess g, result = res, timestamp = None\<rparr>]\<rparr>;
             g2 = g1\<lparr>usedLetters := fold setAdd (currentGuess g1) (usedLetters g1)\<rparr>;
             g3 = checkGameStatusW g2
         in (True, g3\<lparr>currentGuess := []\<rparr>)))"


text \<open>
  \<open>String.prototype.indexOf\<close>: the first position at which the search string occurs
  (position 0 for the empty search string), \<open>None\<close> for the result \<open>-1\<close>.
\<close>

fun strIndexOf :: "string \<Rightarrow> string \<Rightarrow> nat option" where
  "strIndexOf [] u = (if u = [] then Some 0 else None)"
| "strIndexOf (c # cs) u =
     (if take (length u) (c # cs) = u then Some 0 else map_option Suc (strIndexOf cs u))"

text \<open>
  The loop of \<open>getLetterStatus\<close> over the guesses: it returns at the first guess whose
  word contains the letter, with the entry of \<open>result\<close> at the position of the first
  occurrence. A read past the end of \<open>result\<close> is \<open>undefined\<close> (\<open>None\<close>).
\<close>

fun letterStatusIn :: "string \<Rightarrow> guessEntry list \<Rightarrow> letterState option" where
  "letterStatusIn u [] = Some Unused"
| "letterStatusIn u (g # gs) =
     (case strIndexOf (word g) u of
        Some letterIndex \<Rightarrow>
          (if letterIndex < length (result g) then Some (result g ! letterIndex) else None)
      | None \<Rightarrow> letterStatusIn u gs)"

definition getLetterStatus :: "(string \<Rightarrow> string) \<Rightarrow> string \<Rightarrow> wordleGame \<Rightarrow> letterState option" where
  "getLetterStatus toUpperCase letter g = letterStatusIn (toUpperCase letter) (guesses g)"

text \<open>Calls of the three mutating methods of a session, and their effect in sequence.\<close>

datatype call = AddLetter string | RemoveLetter | SubmitGuess

fun perform :: "(string \<Rightarrow> string) \<Rightarrow> call \<Rightarrow> wordleGame \<Rightarrow> bool \<times> wordleGame" where
  "perform toUpperCase (AddLetter letter) g = addLetter toUpperCase letter g"
| "perform toUpperCase RemoveLetter g = removeLetter g"
| "perform toUpperCase SubmitGuess g = submitGuessW g"

fun run :: "(string \<Rightarrow> string) \<Rightarrow> wordleGame \<Rightarrow> call list \<Rightarrow> wordleGame" where
  "run toUpperCase g [] = g"
| "run toUpperCase g (c # cs) = run toUpperCase (snd (perform toUpperCase c g)) cs"

text \<open>
  The session as its caller sees it, told from the calls and the secret word alone,
  without the game object: the input typed so far and the guesses submitted so far. The
  session is over when a submitted guess is the secret word or six guesses have been
  submitted. Before that, a letter is added to an input of fewer than five characters,
  the last character can be removed, and a call of \<open>submitGuess\<close> submits the input when
  it consists of five of the letters \<open>A\<close> to \<open>Z\<close> (and leaves it otherwise). When the
  session is over the calls have no effect.
\<close>

definition sessionOver :: "string \<Rightarrow> string list \<Rightarrow> bool" where
  "sessionOver secret ws = (secret \<in> set ws \<or> 6 \<le> length ws)"

definition fiveCapitals :: "string \<Rightarrow> bool" where
  "fiveCapitals w =
     (length w = 5 \<and> list_all (\<lambda>c. c \<in> set ''ABCDEFGHIJKLMNOPQRSTUVWXYZ'') w)"

fun follow :: "(string \<Rightarrow> string) \<Rightarrow> string \<Rightarrow> call \<Rightarrow> string \<times> string list
    \<Rightarrow> string \<times> string list" where
  "follow toUpperCase secret (AddLetter letter) (typed, ws) =
     (if \<not> sessionOver secret ws \<and> length typed < 5
      then (typed @ toUpperCase letter, ws) else (typed, ws))"
| "follow toUpperCase secret RemoveLetter (typed, ws) =
     (if \<not> sessionOver secret ws then (butlast typed, ws) else (typed, ws))"
| "follow toUpperCase secret SubmitGuess (typed, ws) =
     (if \<not> sessionOver secret ws \<and> fiveCapitals typed
      then ([], ws @ [typed]) else (typed, ws))"

text \<open>The guesses submitted in a sequence of calls, in order.\<close>

definition submitted :: "(string \<Rightarrow> string) \<Rightarrow> string \<Rightarrow> call list \<Rightarrow> string list" where
  "submitted toUpperCase secret cs = snd (fold (follow toUpperCase secret) cs ([], []))"

text \<open>Typing a word letter by letter and submitting it.\<close>

definition typeWord :: "string \<Rightarrow> call list" where
  "typeWord w = map (\<lambda>c. AddLetter [c]) w @ [SubmitGuess]"

text \<open>
  \<open>WordleController.shouldUpdateKeyState\<close>, the rule by which the controller refreshes
  the state of a key of the on-screen keyboard after a guess.
\<close>

definition shouldUpdateKeyState :: "letterState \<Rightarrow> letterState \<Rightarrow> bool" where
  "shouldUpdateKeyState currentState newState =
     (if newState = Correct then True
      else if newState = Present \<and> currentState \<noteq> Correct then True
      else if newState = Absent \<and> currentState = Unused then True
      else False)"

text \<open>The order \<open>correct > present > absent > unused\<close> of the letter states.\<close>

fun rank :: "letterState \<Rightarrow> nat" where
  "rank Correct = 3"
| "rank Present = 2"
| "rank Absent = 1"
| "rank Unused = 0"


section \<open>The state manager of class GameStateManager\<close>

text \<open>
  The game object created by \<open>initializeNewGame\<close> has the fields of a \<open>WordleGame\<close>
  and, in addition, an id and the start and end times (\<open>endTime\<close> is \<open>null\<close> until
  the game ends).
\<close>

record gameState = wordleGame +
  gameId :: string
  startTime :: int
  endTime :: "int option"

record historyRecord =
  h_id :: string
  h_targetWord :: string
  h_gameStatus :: gameStatus
  guessCount :: nat
  duration :: int
  date :: string
  completedAt :: "int option"

text \<open>
  The counters are JavaScript numbers holding non-negative integers; they are modelled
  as natural numbers (number arithmetic is exact on integers below \<open>2^53\<close>).
\<close>

record statistics =
  gamesPlayed :: nat
  gamesWon :: nat
  currentStreak :: nat
  maxStreak :: nat
  guessDistribution :: "nat list"

record settings =
  hardMode :: bool
  darkTheme :: bool
  colorblindMode :: bool
  animations :: bool

text \<open>
  An unlocked achievement. Its \<open>name\<close>, \<open>description\<close> and \<open>icon\<close> are display texts
  fixed by the id and are left out.
\<close>

record achievement =
  achId :: string
  unlockedAt :: int

record appState =
  currentGame :: "gameState option"
  gameHistory :: "historyRecord list"
  statistics :: statistics
  settings :: settings
  achievements :: "achievement list"
  lastPlayed :: "int option"

text \<open>The state literal of the constructor (also used by \<open>resetAll\<close>).\<close>

definition initialStatistics :: statistics where
  "initialStatistics =
     \<lparr> gamesPlayed = 0, gamesWon = 0, currentStreak = 0, maxStreak = 0,
       guessDistribution = [0, 0, 0, 0, 0, 0] \<rparr>"

definition initialState :: appState where
  "initialState =
     \<lparr> currentGame = None, gameHistory = [], statistics = initialStatistics,
       settings = \<lparr> hardMode = False, darkTheme = False, colorblindMode = False,
                     animations = True \<rparr>,
       achievements = [], lastPlayed = None \<rparr>"


subsection \<open>Values, JSON trees and the local storage\<close>

text \<open>
  \<open>saveState\<close> and \<open>loadState\<close> treat the state as a dynamically typed value. \<open>jsval\<close>
  are the values the state is built from (a \<open>Set\<close> lists its elements in insertion
  order); \<open>json\<close> are the trees that JSON text denotes. The local storage is modelled as
  holding the tree denoted by the stored text: \<open>JSON.stringify\<close> and \<open>JSON.parse\<close> are
  inverse to each other on such trees, and only the replacer and the reviver that the two
  methods pass to them are modelled.
\<close>

datatype jsval =
    JNull | JBool bool | JNum int | JStr string
  | JArr "jsval list" | JObj "(string \<times> jsval) list" | JSet "jsval list"

datatype json =
    JsNull | JsBool bool | JsNum int | JsStr string
  | JsArr "json list" | JsObj "(string \<times> json) list"

text \<open>
  \<open>JSON.stringify\<close> with the replacer of \<open>saveState\<close>: a \<open>Set\<close> is replaced by an
  object tagged \<open>__type__: 'Set'\<close> that holds the elements as an array; the replacement
  is serialised in turn.
\<close>

primrec stringifyState :: "jsval \<Rightarrow> json" where
  "stringifyState JNull = JsNull"
| "stringifyState (JBool b) = JsBool b"
| "stringifyState (JNum n) = JsNum n"
| "stringifyState (JStr s) = JsStr s"
| "stringifyState (JArr xs) = JsArr (map stringifyState xs)"
| "stringifyState (JObj kvs) = JsObj (map (map_prod id stringifyState) kvs)"
| "stringifyState (JSet xs) =
     JsObj [(''__type__'', JsStr ''Set''), (''values'', JsArr (map stringifyState xs))]"

text \<open>
  \<open>new Set(iterable)\<close>: equal primitive values are kept once (the first occurrence);
  objects are distinct from each other. A string is iterated character by character,
  \<open>undefined\<close> and \<open>null\<close> give the empty set, and any other argument is not iterable
  (a \<open>TypeError\<close>, here \<open>None\<close>).
\<close>

fun isPrimitive :: "jsval \<Rightarrow> bool" where
  "isPrimitive (JArr _) = False"
| "isPrimitive (JObj _) = False"
| "isPrimitive (JSet _) = False"
| "isPrimitive _ = True"

definition setInsert :: "jsval \<Rightarrow> jsval list \<Rightarrow> jsval list" where
  "setInsert x s = (if isPrimitive x \<and> x \<in> set s then s else s @ [x])"

definition setOfList :: "jsval list \<Rightarrow> jsval list" where
  "setOfList xs = fold setInsert xs []"

fun newSet :: "jsval option \<Rightarrow> jsval option" where
  "newSet None = Some (JSet [])"
| "newSet (Some JNull) = Some (JSet [])"
| "newSet (Some (JArr xs)) = Some (JSet (setOfList xs))"
| "newSet (Some (JSet xs)) = Some (JSet xs)"
| "newSet (Some (JStr s)) = Some (JSet (setOfList (map (\<lambda>c. JStr [c]) s)))"
| "newSet (Some _) = None"

text \<open>
  The reviver of \<open>loadState\<close>, applied to a value whose parts have been revived: an
  object whose property \<open>__type__\<close> is the string \<open>'Set'\<close> becomes
  \<open>new Set(value.values)\<close>. Primitive values and arrays have no such property.
\<close>

fun reviver :: "jsval \<Rightarrow> jsval option" where
  "reviver (JObj kvs) =
     (if map_of kvs ''__type__'' = Some (JStr ''Set'') then newSet (map_of kvs ''values'')
      else Some (JObj kvs))"
| "reviver v = Some v"

text \<open>
  \<open>JSON.parse\<close> with the reviver: the parts of a value are revived before the value
  itself. \<open>None\<close> stands for an exception thrown by the reviver.
\<close>

fun sequence :: "'a option list \<Rightarrow> 'a list option" where
  "sequence [] = Some []"
| "sequence (None # xs) = None"
| "sequence (Some x # xs) = map_option ((#) x) (sequence xs)"

definition props :: "(string \<times> jsval option) list \<Rightarrow> (string \<times> jsval) list option" where
  "props kvs = sequence (map (\<lambda>(k, v). map_option (Pair k) v) kvs)"

primrec parseState :: "json \<Rightarrow> jsval option" where
  "parseState JsNull = Some JNull"
| "parseState (JsBool b) = Some (JBool b)"
| "parseState (JsNum n) = Some (JNum n)"
| "parseState (JsStr s) = Some (JStr s)"
| "parseState (JsArr xs) = map_option JArr (sequence (map parseState xs))"
| "parseState (JsObj kvs) =
     (case props (map (map_prod id parseState) kvs) of
        None \<Rightarrow> None
      | Some kvs' \<Rightarrow> reviver (JObj kvs'))"

text \<open>
  The local storage: the stored items, and whether \<open>setItem\<close> succeeds (it throws when
  the quota is exceeded).
\<close>

record storage =
  items :: "string \<rightharpoonup> json"
  writable :: bool

definition setItem :: "string \<Rightarrow> json \<Rightarrow> storage \<Rightarrow> storage option" where
  "setItem k v st = (if writable st then Some (st\<lparr>items := (items st)(k \<mapsto> v)\<rparr>) else None)"

definition getItem :: "string \<Rightarrow> storage \<Rightarrow> json option" where
  "getItem k st = items st k"


subsection \<open>The state as a value\<close>

text \<open>
  The state object, property by property in the order of the object literals that create
  it. A property holding \<open>null\<close> is \<open>None\<close> in the record.
\<close>

fun letterStateName :: "letterState \<Rightarrow> string" where
  "letterStateName Correct = ''correct''"
| "letterStateName Present = ''present''"
| "letterStateName Absent = ''absent''"
| "letterStateName Unused = ''unused''"

fun statusName :: "gameStatus \<Rightarrow> string" where
  "statusName Playing = ''playing''"
| "statusName Won = ''won''"
| "statusName Lost = ''lost''"

definition optNum :: "int option \<Rightarrow> jsval" where
  "optNum t = (case t of None \<Rightarrow> JNull | Some n \<Rightarrow> JNum n)"

definition encodeGuess :: "guessEntry \<Rightarrow> jsval" where
  "encodeGuess e =
     JObj ([(''word'', JStr (word e)),
            (''result'', JArr (map (\<lambda>r. JStr (letterStateName r)) (result e)))] @
           (case timestamp e of None \<Rightarrow> [] | Some t \<Rightarrow> [(''timestamp'', JNum t)]))"

definition encodeGame :: "gameState \<Rightarrow> jsval" where
  "encodeGame g =
     JObj [(''id'', JStr (gameId g)),
           (''targetWord'', JStr (targetWord g)),
           (''currentGuess'', JStr (currentGuess g)),
           (''guesses'', JArr (map encodeGuess (guesses g))),
           (''gameStatus'', JStr (statusName (gameStatus g))),
           (''maxGuesses'', JNum (int (maxGuesses g))),
           (''wordLength'', JNum (int (wordLength g))),
           (''startTime'', JNum (startTime g)),
           (''endTime'', optNum (endTime g)),
           (''usedLetters'', JSet (map (\<lambda>c. JStr [c]) (usedLetters g))),
           (''wordList'', JArr (map JStr (wordList g)))]"

definition encodeHistory :: "historyRecord \<Rightarrow> jsval" where
  "encodeHistory h =
     JObj [(''id'', JStr (h_id h)),
           (''targetWord'', JStr (h_targetWord h)),
           (''gameStatus'', JStr (statusName (h_gameStatus h))),
           (''guessCount'', JNum (int (guessCount h))),
           (''duration'', JNum (duration h)),
           (''date'', JStr (date h)),
           (''completedAt'', optNum (completedAt h))]"

definition encodeStatistics :: "statistics \<Rightarrow> jsval" where
  "encodeStatistics st =
     JObj [(''gamesPlayed'', JNum (int (gamesPlayed st))),
           (''gamesWon'', JNum (int (gamesWon st))),
           (''currentStreak'', JNum (int (currentStreak st))),
           (''maxStreak'', JNum (int (maxStreak st))),
           (''guessDistribution'', JArr (map (\<lambda>n. JNum (int n)) (guessDistribution st)))]"

definition encodeSettings :: "settings \<Rightarrow> jsval" where
  "encodeSettings st =
     JObj [(''hardMode'', JBool (hardMode st)),
           (''darkTheme'', JBool (darkTheme st)),
           (''colorblindMode'', JBool (colorblindMode st)),
           (''animations'', JBool (animations st))]"

definition encodeAchievement :: "achievement \<Rightarrow> jsval" where
  "encodeAchievement a =
     JObj [(''id'', JStr (achId a)), (''unlockedAt'', JNum (unlockedAt a))]"

definition encodeState :: "appState \<Rightarrow> jsval" where
  "encodeState s =
     JObj [(''currentGame'', (case currentGame s of None \<Rightarrow> JNull | Some g \<Rightarrow> encodeGame g)),
           (''gameHistory'', JArr (map encodeHistory (gameHistory s))),
           (''statistics'', encodeStatistics (statistics s)),
           (''settings'', encodeSettings (settings s)),
           (''achievements'', JArr (map encodeAchievement (achievements s))),
           (''lastPlayed'', optNum (lastPlayed s))]"


subsection \<open>saveState and loadState\<close>

record manager =
  state :: appState
  localStorage :: storage

text \<open>
  \<open>saveState\<close>: an exception thrown by \<open>setItem\<close> is caught and logged, and the storage
  stays as it was.
\<close>

definition saveState :: "manager \<Rightarrow> manager" where
  "saveState m =
     (case setItem ''wordleGameState'' (stringifyState (encodeState (state m))) (localStorage m) of
        Some st \<Rightarrow> m\<lparr>localStorage := st\<rparr>
      | None \<Rightarrow> m)"

definition hasKey :: "string \<Rightarrow> (string \<times> jsval) list \<Rightarrow> bool" where
  "hasKey k kvs = (map_of kvs k \<noteq> None)"

definition isValidState :: "jsval \<Rightarrow> bool" where
  "isValidState v =
     (case v of
        JObj kvs \<Rightarrow> hasKey ''statistics'' kvs \<and> hasKey ''settings'' kvs \<and> hasKey ''achievements'' kvs
      | _ \<Rightarrow> False)"

fun truthy :: "jsval option \<Rightarrow> bool" where
  "truthy None = False"
| "truthy (Some JNull) = False"
| "truthy (Some (JBool b)) = b"
| "truthy (Some (JNum n)) = (n \<noteq> 0)"
| "truthy (Some (JStr s)) = (s \<noteq> [])"
| "truthy (Some _) = True"

definition setProp :: "string \<Rightarrow> jsval \<Rightarrow> (string \<times> jsval) list \<Rightarrow> (string \<times> jsval) list" where
  "setProp k v kvs =
     (if hasKey k kvs then map (\<lambda>(k', v'). if k' = k then (k', v) else (k', v')) kvs
      else kvs @ [(k, v)])"

text \<open>
  The repair step of \<open>loadState\<close>: a current game without a truthy \<open>usedLetters\<close>
  property gets an empty set. (When the loaded \<open>currentGame\<close> is not a plain object the
  assignment of the source has no effect that this value type can express, and the
  loaded state is kept.)
\<close>

definition restoreUsedLetters :: "jsval \<Rightarrow> jsval" where
  "restoreUsedLetters v =
     (case v of
        JObj kvs \<Rightarrow>
          (case map_of kvs ''currentGame'' of
             Some (JObj g) \<Rightarrow>
               (if \<not> truthy (map_of g ''usedLetters'')
                then JObj (setProp ''currentGame'' (JObj (setProp ''usedLetters'' (JSet []) g)) kvs)
                else v)
           | _ \<Rightarrow> v)
      | _ \<Rightarrow> v)"

text \<open>
  \<open>loadState\<close>: the value it assigns to \<open>this.state\<close>, or \<open>None\<close> when it leaves
  \<open>this.state\<close> as it was (nothing is stored, the reviver throws, or the loaded value
  fails \<open>isValidState\<close>).
\<close>

definition loadState :: "storage \<Rightarrow> jsval option" where
  "loadState st =
     (case getItem ''wordleGameState'' st of
        None \<Rightarrow> None
      | Some serializedState \<Rightarrow>
          (case parseState serializedState of
             None \<Rightarrow> None
           | Some loadedState \<Rightarrow>
               (if isValidState loadedState then Some (restoreUsedLetters loadedState)
                else None)))"


subsection \<open>Games, finalisation and achievements\<close>

text \<open>
  Clock readings (\<open>Date.now()\<close>), the date string and the random parts of a new game
  are arguments: \<open>now\<close> is the reading of the clock during the call, \<open>today\<close> the text
  \<open>new Date().toISOString().split('T')[0]\<close>, \<open>gid\<close> the generated id and \<open>r\<close> the
  random index.
\<close>

definition initializeNewGame ::
    "(string \<Rightarrow> string) \<Rightarrow> string list \<Rightarrow> string \<Rightarrow> nat \<Rightarrow> int \<Rightarrow> manager \<Rightarrow> manager" where
  "initializeNewGame toUpperCase wl gid r now m =
     (let game = \<lparr> wordList = wl, targetWord = selectRandomWord toUpperCase wl r,
                    currentGuess = [],
                    guesses = [], maxGuesses = 6, wordLength = 5, gameStatus = Playing,
                    usedLetters = [], gameId = gid, startTime = now, endTime = None \<rparr>
      in saveState (m\<lparr>state := (state m)\<lparr>currentGame := Some game\<rparr>\<rparr>))"

definition checkGameStatus :: "int \<Rightarrow> gameState \<Rightarrow> gameState" where
  "checkGameStatus now game =
     (if guesses game \<noteq> [] \<and> word (last (guesses game)) = targetWord game
      then game\<lparr>gameStatus := Won, endTime := Some now\<rparr>
      else if length (guesses game) \<ge> maxGuesses game
      then game\<lparr>gameStatus := Lost, endTime := Some now\<rparr>
      else game)"

definition hasAchievement :: "string \<Rightarrow> appState \<Rightarrow> bool" where
  "hasAchievement achievementId s = list_ex (\<lambda>a. achId a = achievementId) (achievements s)"

definition checkAchievements :: "gameState \<Rightarrow> int \<Rightarrow> appState \<Rightarrow> appState" where
  "checkAchievements game now s =
     (let stats = statistics s;
          firstWin =
            (if gamesWon stats = 1 \<and> \<not> hasAchievement ''first_win'' s
             then [\<lparr>achId = ''first_win'', unlockedAt = now\<rparr>] else []);
          streakMaster =
            (if currentStreak stats \<ge> 5 \<and> \<not> hasAchievement ''streak_master'' s
             then [\<lparr>achId = ''streak_master'', unlockedAt = now\<rparr>] else []);
          perfectGame =
            (if gameStatus game = Won \<and> length (guesses game) = 1 \<and>
                \<not> hasAchievement ''perfect_game'' s
             then [\<lparr>achId = ''perfect_game'', unlockedAt = now\<rparr>] else []);
          wordMaster =
            (if gamesPlayed stats \<ge> 10 \<and> \<not> hasAchievement ''word_master'' s
             then [\<lparr>achId = ''word_master'', unlockedAt = now\<rparr>] else []);
          newAchievements = firstWin @ streakMaster @ perfectGame @ wordMaster
      in s\<lparr>achievements := achievements s @ newAchievements\<rparr>)"

text \<open>
  \<open>stats.guessDistribution[i]++\<close>. The index is within the six slots that the
  constructor and the reset methods create; on a shorter array the source would store
  \<open>NaN\<close>, which the counters of this model cannot hold, and the model leaves the array
  as it is.
\<close>

definition incrementAt :: "nat \<Rightarrow> nat list \<Rightarrow> nat list" where
  "incrementAt i xs = (if i < length xs then xs[i := xs ! i + 1] else xs)"

definition updateStatistics :: "gameState \<Rightarrow> statistics \<Rightarrow> statistics" where
  "updateStatistics game stats =
     (let stats1 = stats\<lparr>gamesPlayed := gamesPlayed stats + 1\<rparr>
      in if gameStatus game = Won
         then (let stats2 = stats1\<lparr>gamesWon := gamesWon stats1 + 1\<rparr>;
                   stats3 = stats2\<lparr>currentStreak := currentStreak stats2 + 1\<rparr>;
                   stats4 = stats3\<lparr>maxStreak := max (maxStreak stats3) (currentStreak stats3)\<rparr>;
                   guessCount = length (guesses game)
               in if guessCount \<ge> 1 \<and> guessCount \<le> 6
                  then stats4\<lparr>guessDistribution :=
                                 incrementAt (guessCount - 1) (guessDistribution stats4)\<rparr>
                  else stats4)
         else stats1\<lparr>currentStreak := 0\<rparr>)"

text \<open>
  The history record of a finished game. In \<open>game.endTime - game.startTime\<close> an
  \<open>endTime\<close> of \<open>null\<close> counts as 0.
\<close>

definition historyRecordOf :: "gameState \<Rightarrow> string \<Rightarrow> historyRecord" where
  "historyRecordOf game today =
     \<lparr> h_id = gameId game, h_targetWord = targetWord game, h_gameStatus = gameStatus game,
       guessCount = length (guesses game),
       duration = (case endTime game of None \<Rightarrow> 0 | Some t \<Rightarrow> t) - startTime game,
       date = today, completedAt = endTime game \<rparr>"

text \<open>
  \<open>finalizeGame\<close>: the statistics (the statements before the history is extended are
  \<open>updateStatistics\<close>), the history, the achievements, the time of the last game, and
  \<open>saveState\<close>.
\<close>

definition finalizeGame :: "gameState \<Rightarrow> int \<Rightarrow> string \<Rightarrow> manager \<Rightarrow> manager" where
  "finalizeGame game now today m =
     (let s = state m;
          s1 = s\<lparr>statistics := updateStatistics game (statistics s)\<rparr>;
          s2 = s1\<lparr>gameHistory := historyRecordOf game today # gameHistory s1\<rparr>;
          s3 = checkAchievements game now s2;
          s4 = s3\<lparr>lastPlayed := Some now\<rparr>
      in saveState (m\<lparr>state := s4\<rparr>))"

datatype error = GameNotInProgress

text \<open>
  \<open>GameStateManager.submitGuess(guess)\<close>. It throws when there is no current game or
  the current game is not being played. The game it returns is the current game of the
  resulting state.
\<close>

definition submitGuess :: "string \<Rightarrow> int \<Rightarrow> string \<Rightarrow> manager \<Rightarrow> error + manager" where
  "submitGuess guess now today m =
     (case currentGame (state m) of
        None \<Rightarrow> Inl GameNotInProgress
      | Some game \<Rightarrow>
          if gameStatus game \<noteq> Playing then Inl GameNotInProgress
          else
            (let res = evaluateGuess guess (targetWord game);
                 game1 = game\<lparr>guesses := guesses game @
                            [\<lparr>word = guess, result = res, timestamp = Some now\<rparr>]\<rparr>;
                 game2 = game1\<lparr>usedLetters := fold setAdd guess (usedLetters game1)\<rparr>;
                 game3 = game2\<lparr>currentGuess := []\<rparr>;
                 game4 = checkGameStatus now game3;
                 m1 = m\<lparr>state := (state m)\<lparr>currentGame := Some game4\<rparr>\<rparr>;
                 m2 = (if gameStatus game4 \<noteq> Playing then finalizeGame game4 now today m1
                       else m1)
             in Inr (saveState m2)))"

text \<open>A sequence of finalisations, each with its game, clock reading and date.\<close>

fun finalizeAll :: "(gameState \<times> int \<times> string) list \<Rightarrow> manager \<Rightarrow> manager" where
  "finalizeAll [] m = m"
| "finalizeAll ((game, now, today) # rest) m = finalizeAll rest (finalizeGame game now today m)"

text \<open>
  A finished session as the state machine produces it: it is won or lost, and a won
  session has between one and six guesses.
\<close>

definition finishedSession :: "gameState \<Rightarrow> bool" where
  "finishedSession game =
     (if gameStatus game = Won then 1 \<le> length (guesses game) \<and> length (guesses game) \<le> 6
      else gameStatus game = Lost)"


subsection \<open>Derived statistics\<close>

text \<open>
  \<open>getStatistics\<close> computes with JavaScript numbers, which are IEEE 754 double precision
  values. A non-negative finite double is written here as a pair \<open>(m, e)\<close> of integers
  standing for \<open>m * 2^e\<close>, with a significand \<open>m\<close> of at most 53 bits.

  \<open>roundTo53 n sticky e\<close> rounds the number \<open>(n + d) * 2^e\<close> to the nearest double, ties
  to even, where \<open>d = 0\<close> when \<open>sticky\<close> is false and \<open>0 < d < 1\<close> otherwise (in which
  case \<open>n\<close> must have more than 54 bits).
\<close>

type_synonym double = "int \<times> int"

definition roundTo53 :: "int \<Rightarrow> bool \<Rightarrow> int \<Rightarrow> double" where
  "roundTo53 n sticky e =
     (if bitlen n \<le> 53 then (n, e)
      else
        (let s = nat (bitlen n - 53);
             q = n div 2 ^ s;
             r = n mod 2 ^ s;
             half = 2 ^ (s - 1)
         in if r > half \<or> (r = half \<and> (sticky \<or> odd q)) then (q + 1, e + int s)
            else (q, e + int s)))"

text \<open>The real number that a double stands for.\<close>

definition valueOf :: "double \<Rightarrow> real" where
  "valueOf x = (case x of (m, e) \<Rightarrow> of_int m * 2 powi e)"

text \<open>
  The quotient \<open>a / b\<close> of two non-negative integers (\<open>b > 0\<close>): the integer quotient
  of \<open>a * 2^k\<close> by \<open>b\<close> has more than 54 bits, and a non-zero remainder is the sticky
  part. (The methods divide only when the divisor is positive.)
\<close>

definition fdiv :: "int \<Rightarrow> int \<Rightarrow> double" where
  "fdiv a b =
     (if a = 0 then (0, 0)
      else
        (let k = nat (55 + bitlen b)
         in roundTo53 ((a * 2 ^ k) div b) ((a * 2 ^ k) mod b \<noteq> 0) (- int k)))"

text \<open>The product of a double and a non-negative integer.\<close>

definition fmul :: "double \<Rightarrow> int \<Rightarrow> double" where
  "fmul x c = (case x of (m, e) \<Rightarrow> roundTo53 (m * c) False e)"

text \<open>\<open>floor (m * 2^e + 1/2)\<close>: the nearest integer, a tie going upwards.\<close>

definition nearestInt :: "double \<Rightarrow> int" where
  "nearestInt x =
     (case x of (m, e) \<Rightarrow>
        if e \<ge> 0 then m * 2 ^ nat e
        else (2 * m + 2 ^ nat (- e)) div (2 * 2 ^ nat (- e)))"

text \<open>\<open>Math.round\<close> on a non-negative double.\<close>

definition mathRound :: "double \<Rightarrow> int" where
  "mathRound x = nearestInt x"

fun digits :: "nat \<Rightarrow> nat \<Rightarrow> string" where
  "digits 0 n = []"
| "digits (Suc fuel) n =
     (if n < 10 then [char_of (48 + n)]
      else digits fuel (n div 10) @ [char_of (48 + n mod 10)])"

text \<open>The decimal digits of a natural number (a number \<open>n\<close> has at most \<open>n + 1\<close> digits).\<close>

definition decimal :: "nat \<Rightarrow> string" where
  "decimal n = digits (Suc n) n"

text \<open>
  \<open>x.toFixed(1)\<close> for a double \<open>0 \<le> x < 10^21\<close>: with \<open>n\<close> the integer for which
  \<open>n / 10\<close> is nearest to \<open>x\<close> (the larger one of two), the digits of \<open>n\<close> with a point
  before the last one.
\<close>

definition toFixed1 :: "double \<Rightarrow> string" where
  "toFixed1 x =
     (case x of (m, e) \<Rightarrow>
        (let n = nat (nearestInt (10 * m, e))
         in decimal (n div 10) @ ''.'' @ decimal (n mod 10)))"

text \<open>
  The result of \<open>calculateAverageGuesses\<close>: the number 0, or the text made by
  \<open>toFixed\<close>.
\<close>

datatype average = AvgNumber rat | AvgText string

definition calculateAverageGuesses :: "appState \<Rightarrow> average" where
  "calculateAverageGuesses s =
     (let wonGames = filter (\<lambda>game. h_gameStatus game = Won) (gameHistory s)
      in if length wonGames = 0 then AvgNumber 0
         else
           (let totalGuesses = fold (\<lambda>game sum. sum + guessCount game) wonGames 0
            in AvgText (toFixed1 (fdiv (int totalGuesses) (int (length wonGames))))))"

record statisticsView = statistics +
  winPercentage :: int
  averageGuesses :: average

definition getStatistics :: "appState \<Rightarrow> statisticsView" where
  "getStatistics s =
     (let stats = statistics s
      in statistics.extend stats
           \<lparr> winPercentage =
               (if gamesPlayed stats > 0
                then mathRound (fmul (fdiv (int (gamesWon stats)) (int (gamesPlayed stats))) 100)
                else 0),
             averageGuesses = calculateAverageGuesses s \<rparr>)"

text \<open>
  The mean guess count over the won games of a history, as a rational number
  (0 when there is none).
\<close>

definition meanGuesses :: "historyRecord list \<Rightarrow> rat" where
  "meanGuesses h =
     (let won = filter (\<lambda>game. h_gameStatus game = Won) h
      in if won = [] then 0
         else of_nat (sum_list (map guessCount won)) / of_nat (length won))"


section \<open>Definitions used in the proofs\<close>

subsection \<open>Invariants of the evaluation loops\<close>

text \<open>
  The state after the first loop has handled the indices below \<open>k\<close>, for a target \<open>S\<close>
  and a guess \<open>G\<close> of length \<open>n\<close>.
\<close>

definition exactRes :: "string \<Rightarrow> string \<Rightarrow> nat \<Rightarrow> nat \<Rightarrow> evalState" where
  "exactRes S G n k =
     (map (\<lambda>j. if j < k \<and> G ! j = S ! j then Correct else Absent) [0..<n],
      map (\<lambda>j. if j < k \<and> G ! j = S ! j then Null else Chr (S ! j)) [0..<n],
      map (\<lambda>j. if j < k \<and> G ! j = S ! j then Null else Chr (G ! j)) [0..<n])"

text \<open>The positions of the guess that hold the letter \<open>L\<close> and are not marked absent.\<close>

definition markedAt :: "string \<Rightarrow> letterState list \<Rightarrow> nat \<Rightarrow> char \<Rightarrow> nat set" where
  "markedAt G res n L = {j. j < n \<and> G ! j = L \<and> res ! j \<noteq> Absent}"

text \<open>
  The invariant of the second loop: exactly the matching positions are marked correct,
  and every marked position of a letter has used up an occurrence of that letter in the
  target.
\<close>

definition presentInv :: "string \<Rightarrow> string \<Rightarrow> nat \<Rightarrow> evalState \<Rightarrow> bool" where
  "presentInv S G n st =
     (case st of (res, ts, gs) \<Rightarrow>
        length res = n \<and>
        gs = map (\<lambda>j. if G ! j = S ! j then Null else Chr (G ! j)) [0..<n] \<and>
        (\<forall>j<n. res ! j = Correct \<longleftrightarrow> G ! j = S ! j) \<and>
        (\<forall>L. card (markedAt G res n L) + count_list ts (Chr L) \<le> count_list S L))"

subsection \<open>Invariants of sessions and statistics\<close>

text \<open>
  The game object agrees with the caller's view \<open>(typed, ws)\<close> of the session with the
  secret word \<open>secret\<close>.
\<close>

definition agrees :: "string \<Rightarrow> wordleGame \<Rightarrow> string \<times> string list \<Rightarrow> bool" where
  "agrees secret g v =
     (case v of (typed, ws) \<Rightarrow>
        targetWord g = secret \<and> maxGuesses g = 6 \<and> wordLength g = 5 \<and>
        currentGuess g = typed \<and> map word (guesses g) = ws \<and> length ws \<le> 6 \<and>
        (gameStatus g = Won \<longleftrightarrow> secret \<in> set ws) \<and>
        (gameStatus g = Lost \<longleftrightarrow> length ws = 6 \<and> secret \<notin> set ws))"

definition statsInv :: "statistics \<Rightarrow> bool" where
  "statsInv st =
     (currentStreak st \<le> maxStreak st \<and> gamesWon st \<le> gamesPlayed st \<and>
      sum_list (guessDistribution st) = gamesWon st \<and> length (guessDistribution st) = 6)"

text \<open>
  Requests to the manager: a new game, or a guess for the current game. A guess that
  \<open>submitGuess\<close> refuses with its exception leaves the manager as it is.
\<close>

datatype request = NewGame "string list" string nat int | Guess string int string

fun serve :: "(string \<Rightarrow> string) \<Rightarrow> request \<Rightarrow> manager \<Rightarrow> manager" where
  "serve toUpperCase (NewGame wl gid r now) m = initializeNewGame toUpperCase wl gid r now m"
| "serve toUpperCase (Guess guess now today) m =
     (case submitGuess guess now today m of Inl e \<Rightarrow> m | Inr m' \<Rightarrow> m')"

definition managerInv :: "manager \<Rightarrow> bool" where
  "managerInv m =
     (statsInv (statistics (state m)) \<and>
      (case currentGame (state m) of
         None \<Rightarrow> True
       | Some g \<Rightarrow> maxGuesses g = 6 \<and> (gameStatus g = Playing \<longrightarrow> length (guesses g) < 6)))"

text \<open>The number of unlocked achievements with the id \<open>first_win\<close>.\<close>

definition firstWins :: "manager \<Rightarrow> nat" where
  "firstWins m = length (filter (\<lambda>a. achId a = ''first_win'') (achievements (state m)))"

definition firstWinInv :: "manager \<Rightarrow> bool" where
  "firstWinInv m = (firstWins m = (if gamesWon (statistics (state m)) = 0 then 0 else 1))"

text \<open>
  The state of the keyboard key of a letter after the controller has seen a new state
  for it (\<open>WordleController.updateKeyboardState\<close>).
\<close>

definition keyStateAfter :: "letterState \<Rightarrow> letterState \<Rightarrow> letterState" where
  "keyStateAfter currentState newState =
     (if shouldUpdateKeyState currentState newState then newState else currentState)"

subsection \<open>Values that survive saving and loading\<close>

text \<open>
  Values without a property named \<open>__type__\<close>, whose sets hold no element twice.
\<close>

primrec plainValue :: "jsval \<Rightarrow> bool" where
  "plainValue JNull = True"
| "plainValue (JBool b) = True"
| "plainValue (JNum n) = True"
| "plainValue (JStr s) = True"
| "plainValue (JArr xs) = list_all id (map plainValue xs)"
| "plainValue (JObj kvs) =
     (map_of (map (map_prod id (\<lambda>v. ())) kvs) ''__type__'' = None \<and>
      list_all snd (map (map_prod id plainValue) kvs))"
| "plainValue (JSet xs) = (distinct xs \<and> list_all id (map plainValue xs))"

text \<open>
  The \<open>usedLetters\<close> of the current game are a \<open>Set\<close>: no letter occurs twice.
\<close>

definition usedLettersIsSet :: "appState \<Rightarrow> bool" where
  "usedLettersIsSet s =
     (case currentGame s of None \<Rightarrow> True | Some g \<Rightarrow> distinct (usedLetters g))"

subsection \<open>Sample values\<close>

definition emptyStorage :: storage where
  "emptyStorage = \<lparr>items = Map.empty, writable = True\<rparr>"

definition freshManager :: manager where
  "freshManager = \<lparr>state = initialState, localStorage = emptyStorage\<rparr>"

text \<open>A game with the target \<open>WORLD\<close>, won with the first guess.\<close>

definition wonGame :: gameState where
  "wonGame =
     \<lparr> wordList = [], targetWord = ''WORLD'', currentGuess = [],
       guesses = [\<lparr>word = ''WORLD'', result = [Correct, Correct, Correct, Correct, Correct],
                   timestamp = Some 10\<rparr>],
       maxGuesses = 6, wordLength = 5, gameStatus = Won, usedLetters = ''WORLD'',
       gameId = ''game_1'', startTime = 0, endTime = Some 10 \<rparr>"

text \<open>A game with the target \<open>WORLD\<close>, lost with six guesses \<open>HELLO\<close>.\<close>

definition lostGame :: gameState where
  "lostGame =
     \<lparr> wordList = [], targetWord = ''WORLD'', currentGuess = [],
       guesses = replicate 6 \<lparr>word = ''HELLO'',
                    result = [Absent, Absent, Absent, Correct, Present], timestamp = Some 20\<rparr>,
       maxGuesses = 6, wordLength = 5, gameStatus = Lost, usedLetters = ''HELO'',
       gameId = ''game_2'', startTime = 12, endTime = Some 20 \<rparr>"

text \<open>A game with the target \<open>WORLD\<close> that is being played, after the guess \<open>HELLO\<close>.\<close>

definition openGame :: gameState where
  "openGame =
     \<lparr> wordList = [], targetWord = ''WORLD'', currentGuess = [],
       guesses = [\<lparr>word = ''HELLO'', result = [Absent, Absent, Absent, Correct, Present],
                   timestamp = Some 5\<rparr>],
       maxGuesses = 6, wordLength = 5, gameStatus = Playing, usedLetters = ''HELO'',
       gameId = ''game_3'', startTime = 1, endTime = None \<rparr>"

text \<open>History records of won games, and a state whose history has three of them.\<close>

definition wonIn :: "nat \<Rightarrow> historyRecord" where
  "wonIn n =
     \<lparr> h_id = ''game'', h_targetWord = ''WORLD'', h_gameStatus = Won, guessCount = n,
       duration = 1000, date = ''2025-01-01'', completedAt = Some 1000 \<rparr>"

definition threeWins :: appState where
  "threeWins = initialState
     \<lparr> gameHistory := [wonIn 1, wonIn 1, wonIn 2],
       statistics := initialStatistics\<lparr>gamesPlayed := 3, gamesWon := 3, currentStreak := 3,
          maxStreak := 3, guessDistribution := [2, 1, 0, 0, 0, 0]\<rparr> \<rparr>"


section \<open>Guess evaluation: proofs\<close>

lemma indexOf_Some: "indexOf xs v = Some m \<Longrightarrow> m < length xs \<and> xs ! m = v"
  by (induction xs arbitrary: m) (auto split: if_splits)

lemma count_list_update:
  "m < length xs \<Longrightarrow>
   count_list (xs[m := y]) v + (if xs ! m = v then 1 else 0) =
   count_list xs v + (if y = v then 1 else 0)"
proof (induction xs arbitrary: m)
  case Nil
  then show ?case by simp
next
  case (Cons x xs)
  show ?case
  proof (cases m)
    case 0
    then show ?thesis by auto
  next
    case (Suc k)
    with Cons.prems have "k < length xs" by simp
    from Cons.IH[OF this] Suc show ?thesis by auto
  qed
qed

lemma count_list_card: "count_list xs x = card {j. j < length xs \<and> xs ! j = x}"
proof -
  have "{j. j < length xs \<and> x = xs ! j} = {j. j < length xs \<and> xs ! j = x}" by auto
  then show ?thesis
    by (simp add: count_list_eq_length_filter length_filter_conv_card)
qed

subsection \<open>The first loop\<close>

lemma exactRes_0:
  "length S = n \<Longrightarrow> length G = n \<Longrightarrow>
   (replicate n Absent, map Chr S, map Chr G) = exactRes S G n 0"
  by (auto simp: exactRes_def intro!: nth_equalityI)

lemma markExact_step:
  assumes "k < n"
  shows "markExact k (exactRes S G n k) = exactRes S G n (Suc k)"
proof (cases "G ! k = S ! k")
  case True
  with assms show ?thesis
    by (auto simp: exactRes_def aget_def aset_def less_Suc_eq nth_list_update
        intro!: nth_equalityI)
next
  case False
  with assms show ?thesis
    by (auto simp: exactRes_def aget_def aset_def less_Suc_eq intro!: nth_equalityI)
qed

lemma fold_markExact:
  "k \<le> n \<Longrightarrow> fold markExact [0..<k] (exactRes S G n 0) = exactRes S G n k"
  by (induction k) (simp_all add: markExact_step)

subsection \<open>The second loop\<close>

lemma presentInv_exact:
  assumes "length S = n" "length G = n"
  shows "presentInv S G n (exactRes S G n n)"
proof -
  have "card (markedAt G (map (\<lambda>j. if j < n \<and> G ! j = S ! j then Correct else Absent) [0..<n]) n L)
        + count_list (map (\<lambda>j. if j < n \<and> G ! j = S ! j then Null else Chr (S ! j)) [0..<n]) (Chr L)
        = count_list S L" for L
  proof -
    let ?A = "{j. j < n \<and> G ! j = L \<and> G ! j = S ! j}"
    let ?B = "{j. j < n \<and> G ! j \<noteq> S ! j \<and> S ! j = L}"
    have m: "markedAt G (map (\<lambda>j. if j < n \<and> G ! j = S ! j then Correct else Absent) [0..<n]) n L = ?A"
      by (auto simp: markedAt_def split: if_splits)
    have c: "count_list (map (\<lambda>j. if j < n \<and> G ! j = S ! j then Null else Chr (S ! j)) [0..<n]) (Chr L)
             = card ?B"
      unfolding count_list_card
      by (rule arg_cong[where f = card]) (auto split: if_splits)
    have s: "count_list S L = card (?A \<union> ?B)"
      unfolding count_list_card using assms by (intro arg_cong[where f = card]) auto
    have "card (?A \<union> ?B) = card ?A + card ?B"
      by (rule card_Un_disjoint) auto
    with m c s show ?thesis by simp
  qed
  then show ?thesis
    by (auto simp: presentInv_def exactRes_def)
qed

lemma markPresent_inv:
  assumes inv: "presentInv S G n st" and k: "k < n"
  shows "presentInv S G n (markPresent k st)"
proof -
  obtain res ts gs where st: "st = (res, ts, gs)" by (cases st) auto
  from inv st have len: "length res = n"
    and gs: "gs = map (\<lambda>j. if G ! j = S ! j then Null else Chr (G ! j)) [0..<n]"
    and cor: "\<forall>j<n. res ! j = Correct \<longleftrightarrow> G ! j = S ! j"
    and cnt: "\<And>L. card (markedAt G res n L) + count_list ts (Chr L) \<le> count_list S L"
    by (auto simp: presentInv_def)
  from gs k have gsk: "aget gs k = (if G ! k = S ! k then Null else Chr (G ! k))"
    by (simp add: aget_def)
  show ?thesis
  proof (cases "G ! k = S ! k")
    case True
    with gsk st inv show ?thesis by simp
  next
    case False
    note neq = this
    show ?thesis
    proof (cases "indexOf ts (Chr (G ! k))")
      case None
      with neq gsk st inv show ?thesis by simp
    next
      case (Some m)
      then have m: "m < length ts" "ts ! m = Chr (G ! k)"
        using indexOf_Some by blast+
      let ?res = "res[k := Present]" and ?ts = "ts[m := Null]"
      have step: "markPresent k st = (?res, ?ts, gs)"
        using neq gsk st Some by simp
      have cor': "\<forall>j<n. ?res ! j = Correct \<longleftrightarrow> G ! j = S ! j"
        using cor neq len k by (auto simp: nth_list_update)
      have cnt': "card (markedAt G ?res n L) + count_list ?ts (Chr L) \<le> count_list S L" for L
      proof (cases "G ! k = L")
        case True
        have sub: "markedAt G ?res n L \<subseteq> insert k (markedAt G res n L)"
          using len k by (auto simp: markedAt_def nth_list_update split: if_splits)
        have fin: "finite (markedAt G res n L)" by (simp add: markedAt_def)
        have "card (markedAt G ?res n L) \<le> card (insert k (markedAt G res n L))"
          using sub fin by (intro card_mono) auto
        also have "\<dots> \<le> Suc (card (markedAt G res n L))"
          using fin by (simp add: card_insert_if)
        finally have a: "card (markedAt G ?res n L) \<le> Suc (card (markedAt G res n L))" .
        from count_list_update[OF m(1), of Null "Chr L"] m(2) True
        have b: "Suc (count_list ?ts (Chr L)) = count_list ts (Chr L)" by simp
        from a b cnt[of L] show ?thesis by linarith
      next
        case False
        have eq: "markedAt G ?res n L = markedAt G res n L"
          using len k False by (auto simp: markedAt_def nth_list_update)
        from count_list_update[OF m(1), of Null "Chr L"] m(2) False
        have b: "count_list ?ts (Chr L) = count_list ts (Chr L)" by simp
        from eq b cnt[of L] show ?thesis by simp
      qed
      show ?thesis
        unfolding step using len gs cor' cnt' by (simp add: presentInv_def)
    qed
  qed
qed

lemma fold_markPresent_inv:
  "presentInv S G n st \<Longrightarrow> k \<le> n \<Longrightarrow> presentInv S G n (fold markPresent [0..<k] st)"
  by (induction k) (simp_all add: markPresent_inv)

lemma evaluate_inv:
  assumes "length S = n" "length G = n"
  shows "\<exists>ts gs. presentInv S G n (evaluate n S G, ts, gs)"
proof -
  have "presentInv S G n (fold markPresent [0..<n] (fold markExact [0..<n]
          (replicate n Absent, map Chr S, map Chr G)))"
    using assms
    by (simp add: exactRes_0[OF assms] fold_markExact fold_markPresent_inv presentInv_exact)
  then show ?thesis
    by (metis evaluate_def prod.collapse)
qed

lemma evaluate_counts:
  assumes "length S = n" "length G = n"
  shows "length (filter (\<lambda>s. s = Correct) (evaluate n S G)) =
           length (filter (\<lambda>i. G ! i = S ! i) [0..<n])"
    and "length (filter (\<lambda>i. G ! i = L \<and>
                 (evaluate n S G ! i = Correct \<or> evaluate n S G ! i = Present)) [0..<n])
           \<le> count_list S L"
proof -
  from evaluate_inv[OF assms] obtain ts gs where
    inv: "presentInv S G n (evaluate n S G, ts, gs)" by blast
  let ?res = "evaluate n S G"
  from inv have len: "length ?res = n"
    and cor: "\<forall>j<n. ?res ! j = Correct \<longleftrightarrow> G ! j = S ! j"
    and cnt: "card (markedAt G ?res n L) + count_list ts (Chr L) \<le> count_list S L"
    by (auto simp: presentInv_def)
  have "length (filter (\<lambda>s. s = Correct) ?res) = card {j. j < n \<and> ?res ! j = Correct}"
    using len by (simp add: length_filter_conv_card)
  also have "{j. j < n \<and> ?res ! j = Correct} = {j. j < n \<and> G ! j = S ! j}"
    using cor by auto
  also have "card \<dots> = length (filter (\<lambda>i. G ! i = S ! i) [0..<n])"
    unfolding length_filter_conv_card by (rule arg_cong[where f = card]) auto
  finally show "length (filter (\<lambda>s. s = Correct) ?res) =
           length (filter (\<lambda>i. G ! i = S ! i) [0..<n])" .
  have "length (filter (\<lambda>i. G ! i = L \<and> (?res ! i = Correct \<or> ?res ! i = Present)) [0..<n])
          = card {j. j < n \<and> G ! j = L \<and> (?res ! j = Correct \<or> ?res ! j = Present)}"
    unfolding length_filter_conv_card by (rule arg_cong[where f = card]) auto
  also have "\<dots> \<le> card (markedAt G ?res n L)"
    by (rule card_mono) (auto simp: markedAt_def)
  finally show "length (filter (\<lambda>i. G ! i = L \<and>
                 (?res ! i = Correct \<or> ?res ! i = Present)) [0..<n]) \<le> count_list S L"
    using cnt by simp
qed

text \<open>
  Claim C1, as amended. For the secret word \<open>BOOKS\<close> and the guess \<open>BOOST\<close>, both
  \<open>evaluateGuess\<close> methods return \<open>correct, correct, correct, present, absent\<close>: the
  first three letters are in their places, \<open>S\<close> occurs elsewhere in the secret, and
  \<open>T\<close> does not occur.
\<close>

theorem evaluate_books_boost:
  "evaluateGuess ''BOOST'' ''BOOKS'' = [Correct, Correct, Correct, Present, Absent] \<and>
   evaluateGuessW (newWordleGame asciiUpperCase [''BOOKS''] 0) ''BOOST''
     = [Correct, Correct, Correct, Present, Absent]"
  by code_simp

text \<open>
  Claim C1 as stated fails: neither method returns
  \<open>correct, absent, present, correct, correct\<close> for the secret \<open>BOOKS\<close> and the guess
  \<open>BOOST\<close>.
\<close>

theorem evaluate_books_boost_counterexample:
  "evaluateGuess ''BOOST'' ''BOOKS'' \<noteq> [Correct, Absent, Present, Correct, Correct] \<and>
   evaluateGuessW (newWordleGame asciiUpperCase [''BOOKS''] 0) ''BOOST''
     \<noteq> [Correct, Absent, Present, Correct, Correct]"
  by code_simp

text \<open>
  Claim C2. For a secret \<open>S\<close> and a guess \<open>G\<close> of five characters each, the result of
  \<open>evaluateGuess\<close> (of either class) has as many \<open>correct\<close> entries as there are
  positions at which \<open>G\<close> and \<open>S\<close> agree, and for every letter \<open>L\<close> the number of
  positions of \<open>G\<close> that hold \<open>L\<close> and are marked \<open>correct\<close> or \<open>present\<close> is at most
  the number of occurrences of \<open>L\<close> in \<open>S\<close>.
\<close>

theorem evaluateGuess_counts:
  assumes "length S = 5" and "length G = 5"
    and "wordLength g = 5" and "targetWord g = S"
  shows "length (filter (\<lambda>s. s = Correct) (evaluateGuess G S))
           = length (filter (\<lambda>i. G ! i = S ! i) [0..<5]) \<and>
         length (filter (\<lambda>i. G ! i = L \<and>
             (evaluateGuess G S ! i = Correct \<or> evaluateGuess G S ! i = Present)) [0..<5])
           \<le> count_list S L \<and>
         length (filter (\<lambda>s. s = Correct) (evaluateGuessW g G))
           = length (filter (\<lambda>i. G ! i = S ! i) [0..<5]) \<and>
         length (filter (\<lambda>i. G ! i = L \<and>
             (evaluateGuessW g G ! i = Correct \<or> evaluateGuessW g G ! i = Present)) [0..<5])
           \<le> count_list S L"
  using evaluate_counts(1)[OF assms(1,2)] evaluate_counts(2)[OF assms(1,2), of L] assms(3,4)
  by (simp add: evaluateGuess_def evaluateGuessW_def)

text \<open>
  Witness for C2: the secret \<open>HELLO\<close>, the guess \<open>LLALL\<close> and the letter \<open>L\<close>.
\<close>

theorem evaluateGuess_counts_witness:
  "length (filter (\<lambda>s. s = Correct) (evaluateGuess ''LLALL'' ''HELLO''))
     = length (filter (\<lambda>i. ''LLALL'' ! i = ''HELLO'' ! i) [0..<5]) \<and>
   length (filter (\<lambda>i. ''LLALL'' ! i = CHR ''L'' \<and>
       (evaluateGuess ''LLALL'' ''HELLO'' ! i = Correct \<or>
        evaluateGuess ''LLALL'' ''HELLO'' ! i = Present)) [0..<5])
     \<le> count_list ''HELLO'' CHR ''L'' \<and>
   length (filter (\<lambda>s. s = Correct) (evaluateGuessW (newWordleGame asciiUpperCase [''HELLO''] 0) ''LLALL''))
     = length (filter (\<lambda>i. ''LLALL'' ! i = ''HELLO'' ! i) [0..<5]) \<and>
   length (filter (\<lambda>i. ''LLALL'' ! i = CHR ''L'' \<and>
       (evaluateGuessW (newWordleGame asciiUpperCase [''HELLO''] 0) ''LLALL'' ! i = Correct \<or>
        evaluateGuessW (newWordleGame asciiUpperCase [''HELLO''] 0) ''LLALL'' ! i = Present)) [0..<5])
     \<le> count_list ''HELLO'' CHR ''L''"
proof -
  have w: "wordLength (newWordleGame asciiUpperCase [''HELLO''] 0) = 5"
    by (simp add: newWordleGame_def)
  have t: "targetWord (newWordleGame asciiUpperCase [''HELLO''] 0) = ''HELLO''"
    by code_simp
  show ?thesis
    by (rule evaluateGuess_counts[of "''HELLO''" "''LLALL''", OF _ _ w t]) simp_all
qed


section \<open>The game session: proofs\<close>

text \<open>The regular expression of \<open>isValidWord\<close> accepts the words of five capitals.\<close>

lemma capital_iff:
  "c \<in> set ''ABCDEFGHIJKLMNOPQRSTUVWXYZ'' \<longleftrightarrow>
   65 \<le> (of_char c :: nat) \<and> (of_char c :: nat) \<le> 90"
proof
  assume "c \<in> set ''ABCDEFGHIJKLMNOPQRSTUVWXYZ''"
  then show "65 \<le> (of_char c :: nat) \<and> (of_char c :: nat) \<le> 90" by auto
next
  assume r: "65 \<le> (of_char c :: nat) \<and> (of_char c :: nat) \<le> 90"
  have "(of_char c :: nat) \<in> of_char ` set ''ABCDEFGHIJKLMNOPQRSTUVWXYZ''"
    using r by simp arith
  then obtain d where d: "d \<in> set ''ABCDEFGHIJKLMNOPQRSTUVWXYZ''"
    and e: "(of_char c :: nat) = of_char d" by blast
  from e have "c = d" by simp
  with d show "c \<in> set ''ABCDEFGHIJKLMNOPQRSTUVWXYZ''" by (simp only:)
qed

lemma isValidWord_fiveCapitals: "isValidWord w = fiveCapitals w"
  unfolding isValidWord_def fiveCapitals_def list_all_iff by (simp only: capital_iff)

text \<open>
  \<open>submitGuess\<close> accepts exactly a complete word of five capitals while the game is
  being played.
\<close>

lemma submitGuessW_accepts:
  "fst (submitGuessW g) \<longleftrightarrow>
     gameStatus g = Playing \<and> length (currentGuess g) = wordLength g \<and>
     fiveCapitals (currentGuess g)"
  by (simp add: submitGuessW_def Let_def isValidWord_fiveCapitals)

lemma agrees_new:
  "agrees (targetWord (newWordleGame up wl r)) (newWordleGame up wl r) ([], [])"
  by (simp add: agrees_def newWordleGame_def)

lemma agrees_playing:
  "agrees secret g (typed, ws) \<Longrightarrow> gameStatus g = Playing \<longleftrightarrow> \<not> sessionOver secret ws"
  by (cases "gameStatus g") (auto simp: agrees_def sessionOver_def)

lemma agrees_perform:
  assumes "agrees secret g v"
  shows "agrees secret (snd (perform up c g)) (follow up secret c v)"
proof -
  obtain typed ws where v: "v = (typed, ws)" by (cases v) auto
  note pl = agrees_playing[OF assms[unfolded v]]
  show ?thesis
  proof (cases c)
    case (AddLetter letter)
    with assms pl show ?thesis
      by (auto simp: v agrees_def addLetter_def)
  next
    case RemoveLetter
    with assms pl show ?thesis
      by (auto simp: v agrees_def removeLetter_def)
  next
    case SubmitGuess
    show ?thesis
    proof (cases "fst (submitGuessW g)")
      case True
      then have acc: "gameStatus g = Playing" "fiveCapitals (currentGuess g)"
        by (simp_all add: submitGuessW_accepts)
      from acc(1) pl have open_: "\<not> sessionOver secret ws" by simp
      then have small: "secret \<notin> set ws" "length ws < 6"
        by (simp_all add: sessionOver_def)
      from True have g': "snd (submitGuessW g) =
          (checkGameStatusW (g\<lparr>guesses := guesses g @
              [\<lparr>word = currentGuess g, result = evaluateGuessW g (currentGuess g),
                timestamp = None\<rparr>],
            usedLetters := fold setAdd (currentGuess g) (usedLetters g)\<rparr>))
          \<lparr>currentGuess := []\<rparr>"
        by (auto simp: submitGuessW_def Let_def split: if_splits)
      from assms acc open_ small show ?thesis
        unfolding SubmitGuess perform.simps g' v
        by (auto simp: agrees_def checkGameStatusW_def)
    next
      case False
      then have same: "snd (submitGuessW g) = g"
        by (auto simp: submitGuessW_def Let_def split: if_splits)
      from False assms pl have "sessionOver secret ws \<or> \<not> fiveCapitals typed"
        by (auto simp: submitGuessW_accepts agrees_def v fiveCapitals_def)
      with assms show ?thesis
        unfolding SubmitGuess perform.simps same v by auto
    qed
  qed
qed

lemma agrees_run:
  "agrees secret g v \<Longrightarrow> agrees secret (run up g cs) (fold (follow up secret) cs v)"
  by (induction cs arbitrary: g v) (simp_all add: agrees_perform)

lemma terminal_rejects:
  "gameStatus g \<noteq> Playing \<Longrightarrow>
   addLetter up letter g = (False, g) \<and> removeLetter g = (False, g) \<and>
   submitGuessW g = (False, g)"
  by (simp add: addLetter_def removeLetter_def submitGuessW_def)

text \<open>
  Claim C3. For a session (a new \<open>WordleGame\<close> with any word list and random draw) and
  any sequence of calls of \<open>addLetter\<close>, \<open>removeLetter\<close> and \<open>submitGuess\<close>: the words
  in \<open>guesses\<close> are the guesses that the caller submitted; the status is \<open>lost\<close>
  exactly when six guesses were submitted and none of them is the secret word; it is
  \<open>won\<close> exactly when a submitted guess is the secret word; and when the status is
  \<open>won\<close> or \<open>lost\<close>, each of the three methods returns \<open>false\<close> and leaves the session
  as it is.
\<close>

theorem session_status:
  "map word (guesses (run up (newWordleGame up wl r) cs))
     = submitted up (targetWord (newWordleGame up wl r)) cs \<and>
   (gameStatus (run up (newWordleGame up wl r) cs) = Lost \<longleftrightarrow>
      length (submitted up (targetWord (newWordleGame up wl r)) cs) = 6 \<and>
      targetWord (newWordleGame up wl r)
        \<notin> set (submitted up (targetWord (newWordleGame up wl r)) cs)) \<and>
   (gameStatus (run up (newWordleGame up wl r) cs) = Won \<longleftrightarrow>
      targetWord (newWordleGame up wl r)
        \<in> set (submitted up (targetWord (newWordleGame up wl r)) cs)) \<and>
   (gameStatus (run up (newWordleGame up wl r) cs) \<noteq> Playing \<longrightarrow>
      addLetter up letter (run up (newWordleGame up wl r) cs)
        = (False, run up (newWordleGame up wl r) cs) \<and>
      removeLetter (run up (newWordleGame up wl r) cs)
        = (False, run up (newWordleGame up wl r) cs) \<and>
      submitGuessW (run up (newWordleGame up wl r) cs)
        = (False, run up (newWordleGame up wl r) cs))"
proof -
  let ?init = "newWordleGame up wl r"
  let ?g = "run up ?init cs"
  let ?v = "fold (follow up (targetWord ?init)) cs ([], [])"
  have "agrees (targetWord ?init) ?g ?v"
    by (rule agrees_run) (rule agrees_new)
  then have "agrees (targetWord ?init) ?g (fst ?v, submitted up (targetWord ?init) cs)"
    by (simp add: submitted_def)
  then show ?thesis
    unfolding agrees_def using terminal_rejects[of ?g up letter] by auto
qed

text \<open>
  Witness for C3, with the default secret \<open>WORLD\<close>. Typing and submitting \<open>WORLD\<close>
  wins the game. Submitting \<open>HELLO\<close> six times loses it; in between, a call of
  \<open>submitGuess\<close> with an incomplete input and a seventh \<open>HELLO\<close> after the end are not
  submitted guesses. After either end the three methods return \<open>false\<close>.
\<close>

theorem session_status_witness:
  "gameStatus (run asciiUpperCase (newWordleGame asciiUpperCase [] 0) (typeWord ''WORLD''))
     = Won \<and>
   submitted asciiUpperCase ''WORLD'' (typeWord ''WORLD'') = [''WORLD''] \<and>
   addLetter asciiUpperCase ''A''
       (run asciiUpperCase (newWordleGame asciiUpperCase [] 0) (typeWord ''WORLD''))
     = (False, run asciiUpperCase (newWordleGame asciiUpperCase [] 0) (typeWord ''WORLD'')) \<and>
   gameStatus (run asciiUpperCase (newWordleGame asciiUpperCase [] 0)
       (typeWord ''hello'' @ typeWord ''HEL'' @ [RemoveLetter, RemoveLetter, RemoveLetter] @
        concat (replicate 6 (typeWord ''HELLO''))))
     = Lost \<and>
   submitted asciiUpperCase ''WORLD''
       (typeWord ''hello'' @ typeWord ''HEL'' @ [RemoveLetter, RemoveLetter, RemoveLetter] @
        concat (replicate 6 (typeWord ''HELLO'')))
     = replicate 6 ''HELLO'' \<and>
   submitGuessW (run asciiUpperCase (newWordleGame asciiUpperCase [] 0)
       (typeWord ''hello'' @ typeWord ''HEL'' @ [RemoveLetter, RemoveLetter, RemoveLetter] @
        concat (replicate 6 (typeWord ''HELLO''))))
     = (False, run asciiUpperCase (newWordleGame asciiUpperCase [] 0)
       (typeWord ''hello'' @ typeWord ''HEL'' @ [RemoveLetter, RemoveLetter, RemoveLetter] @
        concat (replicate 6 (typeWord ''HELLO''))))"
proof -
  define won where "won = typeWord ''WORLD''"
  define lost where "lost = typeWord ''hello'' @ typeWord ''HEL'' @
    [RemoveLetter, RemoveLetter, RemoveLetter] @ concat (replicate 6 (typeWord ''HELLO''))"
  have t: "targetWord (newWordleGame asciiUpperCase [] 0) = ''WORLD''"
    by (simp add: newWordleGame_def selectRandomWord_def)
  have s1: "submitted asciiUpperCase ''WORLD'' won = [''WORLD'']"
    unfolding won_def by code_simp
  have s2: "submitted asciiUpperCase ''WORLD'' lost = replicate 6 ''HELLO''"
    unfolding lost_def by code_simp
  from session_status[of asciiUpperCase "[]" 0 won "''A''"] s1
  have w: "gameStatus (run asciiUpperCase (newWordleGame asciiUpperCase [] 0) won) = Won \<and>
           addLetter asciiUpperCase ''A'' (run asciiUpperCase (newWordleGame asciiUpperCase [] 0) won)
             = (False, run asciiUpperCase (newWordleGame asciiUpperCase [] 0) won)"
    unfolding t by simp
  from session_status[of asciiUpperCase "[]" 0 lost "''A''"] s2
  have l: "gameStatus (run asciiUpperCase (newWordleGame asciiUpperCase [] 0) lost) = Lost \<and>
           submitGuessW (run asciiUpperCase (newWordleGame asciiUpperCase [] 0) lost)
             = (False, run asciiUpperCase (newWordleGame asciiUpperCase [] 0) lost)"
    unfolding t by simp
  from w l s1 s2 show ?thesis unfolding won_def lost_def by simp
qed

subsection \<open>The reported state of a letter\<close>

text \<open>
  Once a guess contains the letter, later guesses do not change what
  \<open>getLetterStatus\<close> reports for it.
\<close>

lemma letterStatusIn_append:
  "list_ex (\<lambda>g. strIndexOf (word g) u \<noteq> None) gs \<Longrightarrow>
   letterStatusIn u (gs @ hs) = letterStatusIn u gs"
  by (induction gs) (auto split: option.splits)

text \<open>
  The rule of the controller for the keys of the keyboard keeps the better one of the
  old and the new state of a letter.
\<close>

lemma keyStateAfter_max:
  "newState \<noteq> Unused \<Longrightarrow>
   rank (keyStateAfter currentState newState) = max (rank currentState) (rank newState)"
  by (cases currentState; cases newState)
     (simp_all add: keyStateAfter_def shouldUpdateKeyState_def)

text \<open>
  Claim C4 at a failing input. The secret is \<open>HELLO\<close>. After the guess \<open>LOYAL\<close> the
  letter \<open>L\<close> is reported \<open>present\<close>. The second guess \<open>HELLO\<close> wins the game and marks
  \<open>L\<close> as \<open>correct\<close> (all five entries of its result are), but \<open>getLetterStatus\<close>
  still reports \<open>present\<close>, the entry of the first guess that contains the letter;
  the maximum of the previous and the new state is \<open>correct\<close>, which is what the
  controller's rule \<open>keyStateAfter\<close> gives.
\<close>

theorem letter_status_not_maximum:
  "getLetterStatus asciiUpperCase ''L'' (run asciiUpperCase (newWordleGame asciiUpperCase [''hello''] 0) (typeWord ''LOYAL''))
     = Some Present \<and>
   map result (guesses (run asciiUpperCase (newWordleGame asciiUpperCase [''hello''] 0)
                          (typeWord ''LOYAL'' @ typeWord ''HELLO''))) ! 1
     = [Correct, Correct, Correct, Correct, Correct] \<and>
   gameStatus (run asciiUpperCase (newWordleGame asciiUpperCase [''hello''] 0) (typeWord ''LOYAL'' @ typeWord ''HELLO''))
     = Won \<and>
   getLetterStatus asciiUpperCase ''L'' (run asciiUpperCase (newWordleGame asciiUpperCase [''hello''] 0)
                            (typeWord ''LOYAL'' @ typeWord ''HELLO''))
     = Some Present \<and>
   keyStateAfter Present Correct = Correct"
  by code_simp


section \<open>Finalisation: proofs\<close>

lemma state_saveState: "state (saveState m) = state m"
  by (simp add: saveState_def split: option.splits)

lemma statistics_finalizeGame:
  "statistics (state (finalizeGame game now today m)) =
     updateStatistics game (statistics (state m))"
  by (simp add: finalizeGame_def Let_def state_saveState checkAchievements_def)

lemma gameHistory_finalizeGame:
  "gameHistory (state (finalizeGame game now today m)) =
     historyRecordOf game today # gameHistory (state m)"
  by (simp add: finalizeGame_def Let_def state_saveState checkAchievements_def)

lemma sum_list_incrementAt:
  "i < length xs \<Longrightarrow> sum_list (incrementAt i xs) = Suc (sum_list xs)"
proof (induction xs arbitrary: i)
  case Nil
  then show ?case by simp
next
  case (Cons x xs)
  then show ?case
    by (cases i) (auto simp: incrementAt_def)
qed

lemma length_incrementAt: "length (incrementAt i xs) = length xs"
  by (simp add: incrementAt_def)

text \<open>
  The sample games are finished sessions, and \<open>openGame\<close> is the current game after a
  first guess \<open>HELLO\<close> in a new game with the secret \<open>WORLD\<close>.
\<close>

lemma finished_samples: "finishedSession wonGame \<and> finishedSession lostGame"
  by (simp add: finishedSession_def wonGame_def lostGame_def)

lemma openGame_reached:
  "map_sum id (\<lambda>m. currentGame (state m))
     (submitGuess ''HELLO'' 5 ''2025-01-01'' (initializeNewGame asciiUpperCase [] ''game_3'' 0 1 freshManager))
   = Inr (Some openGame)"
  by code_simp

text \<open>
  Claim C6. When a finished session is finalised (the histogram having its six slots),
  \<open>gamesPlayed\<close> increases by 1; for a won session \<open>gamesWon\<close> and \<open>currentStreak\<close>
  increase by 1, \<open>maxStreak\<close> becomes the maximum of \<open>maxStreak\<close> and the new
  \<open>currentStreak\<close>, and the slot of \<open>guessDistribution\<close> at the index (number of
  guesses - 1) increases by 1; for a lost session \<open>currentStreak\<close> becomes 0 and
  \<open>gamesWon\<close> and \<open>guessDistribution\<close> stay as they are.
\<close>

theorem finalize_statistics:
  assumes "finishedSession game"
    and "length (guessDistribution (statistics (state m))) = 6"
  shows "gamesPlayed (statistics (state (finalizeGame game now today m)))
           = gamesPlayed (statistics (state m)) + 1 \<and>
         (gameStatus game = Won \<longrightarrow>
            gamesWon (statistics (state (finalizeGame game now today m)))
              = gamesWon (statistics (state m)) + 1 \<and>
            currentStreak (statistics (state (finalizeGame game now today m)))
              = currentStreak (statistics (state m)) + 1 \<and>
            maxStreak (statistics (state (finalizeGame game now today m)))
              = max (maxStreak (statistics (state m)))
                    (currentStreak (statistics (state (finalizeGame game now today m)))) \<and>
            guessDistribution (statistics (state (finalizeGame game now today m)))
              = (guessDistribution (statistics (state m)))
                  [length (guesses game) - 1 :=
                     guessDistribution (statistics (state m)) ! (length (guesses game) - 1) + 1]) \<and>
         (gameStatus game = Lost \<longrightarrow>
            currentStreak (statistics (state (finalizeGame game now today m))) = 0 \<and>
            gamesWon (statistics (state (finalizeGame game now today m)))
              = gamesWon (statistics (state m)) \<and>
            guessDistribution (statistics (state (finalizeGame game now today m)))
              = guessDistribution (statistics (state m)))"
  using assms
  by (auto simp: statistics_finalizeGame updateStatistics_def Let_def finishedSession_def
      incrementAt_def)

text \<open>
  Witness for C6: the won sample game finalised in a fresh manager, and the lost sample
  game finalised after it.
\<close>

theorem finalize_statistics_witness:
  "statistics (state (finalizeGame wonGame 10 ''2025-01-01'' freshManager))
     = \<lparr> gamesPlayed = 1, gamesWon = 1, currentStreak = 1, maxStreak = 1,
         guessDistribution = [1, 0, 0, 0, 0, 0] \<rparr> \<and>
   statistics (state (finalizeGame lostGame 20 ''2025-01-01''
                        (finalizeGame wonGame 10 ''2025-01-01'' freshManager)))
     = \<lparr> gamesPlayed = 2, gamesWon = 1, currentStreak = 0, maxStreak = 1,
         guessDistribution = [1, 0, 0, 0, 0, 0] \<rparr>"
proof -
  let ?m1 = "finalizeGame wonGame 10 ''2025-01-01'' freshManager"
  have f: "finishedSession wonGame" "finishedSession lostGame"
    using finished_samples by simp_all
  have l0: "length (guessDistribution (statistics (state freshManager))) = 6"
    by (simp add: freshManager_def initialState_def initialStatistics_def)
  have w: "gameStatus wonGame = Won" "length (guesses wonGame) = 1"
    by (simp_all add: wonGame_def)
  have s0: "statistics (state freshManager) = initialStatistics"
    by (simp add: freshManager_def initialState_def)
  from finalize_statistics[OF f(1) l0, of 10 "''2025-01-01''"] w s0
  have s1: "statistics (state ?m1)
     = \<lparr> gamesPlayed = 1, gamesWon = 1, currentStreak = 1, maxStreak = 1,
         guessDistribution = [1, 0, 0, 0, 0, 0] \<rparr>"
    by (simp add: initialStatistics_def)
  then have l1: "length (guessDistribution (statistics (state ?m1))) = 6" by simp
  have l: "gameStatus lostGame = Lost" by (simp add: lostGame_def)
  have mx: "maxStreak (statistics (state (finalizeGame lostGame 20 ''2025-01-01'' ?m1))) = 1"
    by (simp add: statistics_finalizeGame updateStatistics_def Let_def l
        s0 initialStatistics_def w)
  from finalize_statistics[OF f(2) l1, of 20 "''2025-01-01''"] l s1 mx
  have "statistics (state (finalizeGame lostGame 20 ''2025-01-01'' ?m1))
     = \<lparr> gamesPlayed = 2, gamesWon = 1, currentStreak = 0, maxStreak = 1,
         guessDistribution = [1, 0, 0, 0, 0, 0] \<rparr>"
    by simp
  with s1 show ?thesis by simp
qed

text \<open>
  Claim C5, as amended. \<open>finalizeGame\<close> does not look into the history: whatever
  session it is passed, recorded or not, \<open>gamesPlayed\<close> increases by 1 and a record of
  the session is put in front of the history. What keeps a finished session from being
  finalised again is the caller: \<open>submitGuess\<close>, the method that calls \<open>finalizeGame\<close>,
  throws when the current game is won or lost (and so changes nothing).
\<close>

theorem finalize_not_guarded:
  "gamesPlayed (statistics (state (finalizeGame game now today m)))
     = gamesPlayed (statistics (state m)) + 1 \<and>
   gameHistory (state (finalizeGame game now today m))
     = historyRecordOf game today # gameHistory (state m) \<and>
   (currentGame (state m) = Some game \<and> gameStatus game \<noteq> Playing \<longrightarrow>
      submitGuess guess now today m = Inl GameNotInProgress)"
  by (simp add: statistics_finalizeGame gameHistory_finalizeGame updateStatistics_def Let_def
      submitGuess_def)

text \<open>
  Witness for C5 as amended: a manager whose current game is the won sample game.
\<close>

theorem finalize_not_guarded_witness:
  "gamesPlayed (statistics (state (finalizeGame wonGame 11 ''2025-01-01''
       (freshManager\<lparr>state := initialState\<lparr>currentGame := Some wonGame\<rparr>\<rparr>)))) = 1 \<and>
   submitGuess ''HELLO'' 11 ''2025-01-01''
       (freshManager\<lparr>state := initialState\<lparr>currentGame := Some wonGame\<rparr>\<rparr>)
     = Inl GameNotInProgress"
proof -
  let ?m = "freshManager\<lparr>state := initialState\<lparr>currentGame := Some wonGame\<rparr>\<rparr>"
  have c: "currentGame (state ?m) = Some wonGame" by simp
  have w: "gameStatus wonGame \<noteq> Playing" by (simp add: wonGame_def)
  have p: "gamesPlayed (statistics (state ?m)) = 0"
    by (simp add: initialState_def initialStatistics_def)
  from finalize_not_guarded[of wonGame 11 "''2025-01-01''" ?m "''HELLO''"] c w p
  show ?thesis by simp
qed

text \<open>
  Claim C5 as stated fails: after the won sample game has been finalised its id is in
  the history, and finalising it again changes \<open>gamesPlayed\<close>, \<open>gamesWon\<close>, the streak,
  the histogram and the history.
\<close>

theorem double_finalize_counterexample:
  "list_ex (\<lambda>h. h_id h = gameId wonGame)
     (gameHistory (state (finalizeGame wonGame 10 ''2025-01-01'' freshManager))) \<and>
   statistics (state (finalizeGame wonGame 10 ''2025-01-01'' freshManager))
     = \<lparr> gamesPlayed = 1, gamesWon = 1, currentStreak = 1, maxStreak = 1,
         guessDistribution = [1, 0, 0, 0, 0, 0] \<rparr> \<and>
   statistics (state (finalizeGame wonGame 11 ''2025-01-01''
                        (finalizeGame wonGame 10 ''2025-01-01'' freshManager)))
     = \<lparr> gamesPlayed = 2, gamesWon = 2, currentStreak = 2, maxStreak = 2,
         guessDistribution = [2, 0, 0, 0, 0, 0] \<rparr> \<and>
   map h_id (gameHistory (state (finalizeGame wonGame 11 ''2025-01-01''
                        (finalizeGame wonGame 10 ''2025-01-01'' freshManager))))
     = [''game_1'', ''game_1'']"
  by (simp add: statistics_finalizeGame gameHistory_finalizeGame updateStatistics_def Let_def
      wonGame_def freshManager_def initialState_def initialStatistics_def historyRecordOf_def
      incrementAt_def)

subsection \<open>Invariants of the statistics\<close>

lemma statsInv_initial: "statsInv initialStatistics"
  by (simp add: statsInv_def initialStatistics_def)

lemma statsInv_update:
  assumes "statsInv st" "finishedSession game"
  shows "statsInv (updateStatistics game st)"
proof (cases "gameStatus game = Won")
  case True
  with assms(2) have n: "1 \<le> length (guesses game)" "length (guesses game) \<le> 6"
    by (simp_all add: finishedSession_def)
  with assms(1) have "length (guesses game) - 1 < length (guessDistribution st)"
    by (simp add: statsInv_def)
  with assms(1) True n show ?thesis
    by (simp add: statsInv_def updateStatistics_def Let_def sum_list_incrementAt
        length_incrementAt)
next
  case False
  with assms(1) show ?thesis
    by (simp add: statsInv_def updateStatistics_def Let_def)
qed

lemma statsInv_finalizeAll:
  "statsInv (statistics (state m)) \<Longrightarrow> \<forall>x \<in> set gs. finishedSession (fst x) \<Longrightarrow>
   statsInv (statistics (state (finalizeAll gs m)))"
proof (induction gs arbitrary: m)
  case Nil
  then show ?case by simp
next
  case (Cons x gs)
  obtain game now today where x: "x = (game, now, today)" by (cases x) auto
  from Cons.prems have "statsInv (statistics (state (finalizeGame game now today m)))"
    by (simp add: x statistics_finalizeGame statsInv_update)
  with Cons show ?case by (simp add: x)
qed

text \<open>
  The sessions that \<open>submitGuess\<close> finalises are finished sessions, when the current
  game has the six guesses of a new game and fewer than six of them are used.
\<close>

lemma checkGameStatus_finished:
  assumes "maxGuesses game = 6" "length (guesses game) \<le> 6" "guesses game \<noteq> []"
    and "gameStatus game = Playing"
    and "gameStatus (checkGameStatus now game) \<noteq> Playing"
  shows "finishedSession (checkGameStatus now game)"
  using assms
  by (auto simp: checkGameStatus_def finishedSession_def Suc_le_eq split: if_splits)

lemma currentGame_finalizeGame:
  "currentGame (state (finalizeGame game now today m)) = currentGame (state m)"
  by (simp add: finalizeGame_def Let_def state_saveState checkAchievements_def)

lemma managerInv_serve:
  assumes "managerInv m"
  shows "managerInv (serve up rq m)"
proof (cases rq)
  case (NewGame wl gid r now)
  with assms show ?thesis
    by (simp add: managerInv_def initializeNewGame_def Let_def state_saveState)
next
  case (Guess guess now today)
  show ?thesis
  proof (cases "submitGuess guess now today m")
    case (Inl e)
    with assms Guess show ?thesis by simp
  next
    case (Inr m')
    then obtain game where g: "currentGame (state m) = Some game" "gameStatus game = Playing"
      by (auto simp: submitGuess_def split: option.splits if_splits)
    with assms have mx: "maxGuesses game = 6" and len: "length (guesses game) < 6"
      and si: "statsInv (statistics (state m))"
      by (auto simp: managerInv_def)
    define game3 where "game3 = game\<lparr>guesses := guesses game @
            [\<lparr>word = guess, result = evaluateGuess guess (targetWord game),
              timestamp = Some now\<rparr>],
          usedLetters := fold setAdd guess (usedLetters game), currentGuess := []\<rparr>"
    define game4 where "game4 = checkGameStatus now game3"
    have g3: "maxGuesses game3 = 6" "length (guesses game3) \<le> 6" "guesses game3 \<noteq> []"
      "gameStatus game3 = Playing"
      using mx len g(2) by (simp_all add: game3_def)
    have mx4: "maxGuesses game4 = 6"
      using g3(1) by (simp add: game4_def checkGameStatus_def)
    have open4: "gameStatus game4 = Playing \<Longrightarrow> length (guesses game4) < 6"
      using g3 by (auto simp: game4_def checkGameStatus_def split: if_splits)
    have fin4: "gameStatus game4 \<noteq> Playing \<Longrightarrow> finishedSession game4"
      unfolding game4_def using g3
      by (intro checkGameStatus_finished) (simp_all add: game4_def)
    have m': "m' = saveState (if gameStatus game4 \<noteq> Playing
                 then finalizeGame game4 now today
                        (m\<lparr>state := (state m)\<lparr>currentGame := Some game4\<rparr>\<rparr>)
                 else m\<lparr>state := (state m)\<lparr>currentGame := Some game4\<rparr>\<rparr>)"
      using Inr g
      by (simp add: submitGuess_def Let_def game4_def game3_def cong: if_cong)
    have "managerInv m'"
    proof (cases "gameStatus game4 = Playing")
      case True
      with m' si mx4 open4 show ?thesis
        by (simp add: managerInv_def state_saveState)
    next
      case False
      with m' si mx4 fin4 show ?thesis
        by (simp add: managerInv_def state_saveState statistics_finalizeGame
            currentGame_finalizeGame statsInv_update)
    qed
    with Guess Inr show ?thesis by simp
  qed
qed

text \<open>
  However new games are started and guesses submitted, beginning with the initial
  state, the statistics satisfy the invariant: the sessions that \<open>submitGuess\<close> passes
  to \<open>finalizeGame\<close> are finished sessions.
\<close>

lemma statsInv_requests:
  "statsInv (statistics (state (fold (serve up) rqs \<lparr>state = initialState, localStorage = sto\<rparr>)))"
proof -
  have step: "managerInv m \<Longrightarrow> managerInv (fold (serve up) rqs m)" for m
    by (induction rqs arbitrary: m) (simp_all add: managerInv_serve)
  have "managerInv \<lparr>state = initialState, localStorage = sto\<rparr>"
    by (simp add: managerInv_def initialState_def statsInv_initial)
  from step[OF this] show ?thesis by (simp add: managerInv_def)
qed

text \<open>
  Claim C10. After any sequence of finalisations of finished sessions, starting from the
  initial statistics: \<open>maxStreak \<ge> currentStreak\<close>, \<open>gamesWon \<le> gamesPlayed\<close>, and the
  six slots of \<open>guessDistribution\<close> add up to \<open>gamesWon\<close>.
\<close>

theorem statistics_invariant:
  assumes "statistics (state m) = initialStatistics"
    and "list_all (\<lambda>x. finishedSession (fst x)) gs"
  shows "currentStreak (statistics (state (finalizeAll gs m)))
           \<le> maxStreak (statistics (state (finalizeAll gs m))) \<and>
         gamesWon (statistics (state (finalizeAll gs m)))
           \<le> gamesPlayed (statistics (state (finalizeAll gs m))) \<and>
         length (guessDistribution (statistics (state (finalizeAll gs m)))) = 6 \<and>
         sum_list (guessDistribution (statistics (state (finalizeAll gs m))))
           = gamesWon (statistics (state (finalizeAll gs m)))"
proof -
  from assms(2) have "\<forall>x \<in> set gs. finishedSession (fst x)"
    by (simp add: list_all_iff)
  with assms(1) have "statsInv (statistics (state (finalizeAll gs m)))"
    by (intro statsInv_finalizeAll) (simp_all add: statsInv_initial)
  then show ?thesis by (simp add: statsInv_def)
qed

text \<open>
  Witness for C10: a won game, a lost game and the won game once more, finalised in a
  fresh manager.
\<close>

theorem statistics_invariant_witness:
  "currentStreak (statistics (state (finalizeAll
       [(wonGame, 10, ''2025-01-01''), (lostGame, 20, ''2025-01-01''),
        (wonGame, 30, ''2025-01-02'')] freshManager)))
     \<le> maxStreak (statistics (state (finalizeAll
       [(wonGame, 10, ''2025-01-01''), (lostGame, 20, ''2025-01-01''),
        (wonGame, 30, ''2025-01-02'')] freshManager))) \<and>
   gamesWon (statistics (state (finalizeAll
       [(wonGame, 10, ''2025-01-01''), (lostGame, 20, ''2025-01-01''),
        (wonGame, 30, ''2025-01-02'')] freshManager)))
     \<le> gamesPlayed (statistics (state (finalizeAll
       [(wonGame, 10, ''2025-01-01''), (lostGame, 20, ''2025-01-01''),
        (wonGame, 30, ''2025-01-02'')] freshManager))) \<and>
   length (guessDistribution (statistics (state (finalizeAll
       [(wonGame, 10, ''2025-01-01''), (lostGame, 20, ''2025-01-01''),
        (wonGame, 30, ''2025-01-02'')] freshManager)))) = 6 \<and>
   sum_list (guessDistribution (statistics (state (finalizeAll
       [(wonGame, 10, ''2025-01-01''), (lostGame, 20, ''2025-01-01''),
        (wonGame, 30, ''2025-01-02'')] freshManager))))
     = gamesWon (statistics (state (finalizeAll
       [(wonGame, 10, ''2025-01-01''), (lostGame, 20, ''2025-01-01''),
        (wonGame, 30, ''2025-01-02'')] freshManager)))"
proof -
  have s0: "statistics (state freshManager) = initialStatistics"
    by (simp add: freshManager_def initialState_def)
  have f: "list_all (\<lambda>x. finishedSession (fst x))
             [(wonGame, 10, ''2025-01-01''), (lostGame, 20, ''2025-01-01''),
              (wonGame, 30, ''2025-01-02'')]"
    using finished_samples by simp
  show ?thesis by (rule statistics_invariant[OF s0 f])
qed

subsection \<open>The first win\<close>

lemma gamesWon_update:
  "gamesWon (updateStatistics game st) =
     (if gameStatus game = Won then gamesWon st + 1 else gamesWon st)"
  by (simp add: updateStatistics_def Let_def)

lemma hasAchievement_filter:
  "hasAchievement a s \<longleftrightarrow> filter (\<lambda>x. achId x = a) (achievements s) \<noteq> []"
  by (simp add: hasAchievement_def list_ex_iff filter_empty_conv)

lemma firstWins_finalizeGame:
  "firstWins (finalizeGame game now today m) =
     firstWins m +
     (if gamesWon (updateStatistics game (statistics (state m))) = 1 \<and> firstWins m = 0
      then 1 else 0)"
  by (simp add: finalizeGame_def Let_def state_saveState checkAchievements_def firstWins_def
      hasAchievement_filter)

lemma firstWinInv_finalizeGame:
  "firstWinInv m \<Longrightarrow> firstWinInv (finalizeGame game now today m)"
  by (simp add: firstWinInv_def firstWins_finalizeGame statistics_finalizeGame gamesWon_update
      split: if_splits)

lemma firstWinInv_finalizeAll: "firstWinInv m \<Longrightarrow> firstWinInv (finalizeAll gs m)"
proof (induction gs arbitrary: m)
  case Nil
  then show ?case by simp
next
  case (Cons x gs)
  obtain game now today where x: "x = (game, now, today)" by (cases x) auto
  from Cons show ?case by (simp add: x firstWinInv_finalizeGame)
qed

text \<open>
  Claim C7. Starting from the initial state (with any storage), after any sequence of
  finalisations the achievements hold \<open>first_win\<close> not at all while \<open>gamesWon\<close> is 0
  and exactly once afterwards; and one more finalisation adds a \<open>first_win\<close> exactly
  when it is the one that takes \<open>gamesWon\<close> from 0 to 1 (a won game finalised while
  \<open>gamesWon\<close> is 0), so that no later finalisation adds a second one.
\<close>

theorem first_win_once:
  "firstWins (finalizeAll gs \<lparr>state = initialState, localStorage = sto\<rparr>) =
     (if gamesWon (statistics (state (finalizeAll gs \<lparr>state = initialState, localStorage = sto\<rparr>))) = 0
      then 0 else 1) \<and>
   firstWins (finalizeGame game now today
               (finalizeAll gs \<lparr>state = initialState, localStorage = sto\<rparr>)) =
     firstWins (finalizeAll gs \<lparr>state = initialState, localStorage = sto\<rparr>) +
     (if gamesWon (statistics (state (finalizeAll gs \<lparr>state = initialState, localStorage = sto\<rparr>))) = 0
         \<and> gameStatus game = Won
      then 1 else 0)"
proof -
  let ?m = "finalizeAll gs \<lparr>state = initialState, localStorage = sto\<rparr>"
  have "firstWinInv \<lparr>state = initialState, localStorage = sto\<rparr>"
    by (simp add: firstWinInv_def firstWins_def initialState_def initialStatistics_def)
  then have inv: "firstWinInv ?m" by (rule firstWinInv_finalizeAll)
  then show ?thesis
    by (auto simp: firstWinInv_def firstWins_finalizeGame gamesWon_update split: if_splits)
qed


section \<open>Saving and loading: proofs\<close>

lemma sequence_map_Some:
  "(\<And>x. x \<in> set xs \<Longrightarrow> f x = Some (g x)) \<Longrightarrow> sequence (map f xs) = Some (map g xs)"
  by (induction xs) simp_all

lemma fold_setInsert: "distinct (acc @ xs) \<Longrightarrow> fold setInsert xs acc = acc @ xs"
  by (induction xs arbitrary: acc) (simp_all add: setInsert_def)

lemma setOfList_distinct: "distinct xs \<Longrightarrow> setOfList xs = xs"
  by (simp add: setOfList_def fold_setInsert)

lemma map_of_unit: "map_of (map (map_prod id (\<lambda>v. ())) kvs) k = None \<longleftrightarrow> map_of kvs k = None"
  by (induction kvs) auto

text \<open>Parsing with the reviver undoes serialising with the replacer.\<close>

lemma parse_stringify: "plainValue v \<Longrightarrow> parseState (stringifyState v) = Some v"
proof (induction v)
  case (JArr xs)
  have "sequence (map parseState (map stringifyState xs)) = Some (map id xs)"
    unfolding map_map
    by (rule sequence_map_Some) (use JArr in \<open>auto simp: list_all_iff\<close>)
  then show ?case by simp
next
  case (JObj kvs)
  have "sequence (map (\<lambda>(k, v). map_option (Pair k) v)
          (map (map_prod id parseState) (map (map_prod id stringifyState) kvs)))
        = Some (map id kvs)"
    unfolding map_map
  proof (rule sequence_map_Some)
    fix x assume x: "x \<in> set kvs"
    obtain k v where kv: "x = (k, v)" by (cases x) auto
    from x kv have "v \<in> Basic_BNFs.snds x" by simp
    moreover from JObj.prems x kv have "plainValue v" by (force simp: list_all_iff)
    ultimately have "parseState (stringifyState v) = Some v" using JObj.IH x by blast
    then show "((\<lambda>(k, v). map_option (Pair k) v) \<circ>
                (map_prod id parseState \<circ> map_prod id stringifyState)) x = Some (id x)"
      by (simp add: kv)
  qed
  moreover from JObj.prems have "map_of kvs ''__type__'' = None"
    by (simp add: map_of_unit)
  ultimately show ?case by (simp add: props_def)
next
  case (JSet xs)
  have "sequence (map parseState (map stringifyState xs)) = Some (map id xs)"
    unfolding map_map
    by (rule sequence_map_Some) (use JSet in \<open>auto simp: list_all_iff\<close>)
  with JSet.prems show ?case by (simp add: props_def setOfList_distinct)
qed simp_all

lemma list_all_map_plain:
  "(\<And>x. plainValue (f x)) \<Longrightarrow> list_all id (map (plainValue \<circ> f) xs)"
  by (induction xs) simp_all

lemma plain_encodeGuess: "plainValue (encodeGuess e)"
  by (simp add: encodeGuess_def list_all_map_plain split: option.splits)

lemma plain_optNum: "plainValue (optNum t)"
  by (simp add: optNum_def split: option.splits)

lemma plain_encodeGame: "distinct (usedLetters g) \<Longrightarrow> plainValue (encodeGame g)"
  by (simp add: encodeGame_def list_all_map_plain plain_encodeGuess plain_optNum
      distinct_map inj_on_def)

lemma plain_encodeHistory: "plainValue (encodeHistory h)"
  by (simp add: encodeHistory_def plain_optNum)

lemma plain_encodeStatistics: "plainValue (encodeStatistics st)"
  by (simp add: encodeStatistics_def list_all_map_plain)

lemma plain_encodeSettings: "plainValue (encodeSettings st)"
  by (simp add: encodeSettings_def)

lemma plain_encodeAchievement: "plainValue (encodeAchievement a)"
  by (simp add: encodeAchievement_def)

lemma plain_encodeState: "usedLettersIsSet s \<Longrightarrow> plainValue (encodeState s)"
  by (simp add: encodeState_def usedLettersIsSet_def list_all_map_plain plain_encodeGame
      plain_encodeHistory plain_encodeStatistics plain_encodeSettings plain_encodeAchievement
      plain_optNum split: option.splits)

lemma valid_encodeState: "isValidState (encodeState s)"
  by (simp add: isValidState_def encodeState_def hasKey_def)

lemma restore_encodeState: "restoreUsedLetters (encodeState s) = encodeState s"
  by (simp add: restoreUsedLetters_def encodeState_def encodeGame_def split: option.splits)

text \<open>
  The methods keep \<open>usedLetters\<close> a set: a new game starts with the empty set, and
  \<open>submitGuess\<close> adds letters that are not yet in it.
\<close>

lemma distinct_fold_setAdd: "distinct s \<Longrightarrow> distinct (fold setAdd w s)"
  by (induction w arbitrary: s) (simp_all add: setAdd_def)

lemma usedLettersIsSet_initializeNewGame:
  "usedLettersIsSet (state (initializeNewGame up wl gid r now m))"
  by (simp add: initializeNewGame_def Let_def state_saveState usedLettersIsSet_def)

lemma usedLettersIsSet_submitGuess:
  assumes "usedLettersIsSet (state m)" and "submitGuess guess now today m = Inr m'"
  shows "usedLettersIsSet (state m')"
proof -
  from assms(2) obtain game where g: "currentGame (state m) = Some game"
    by (auto simp: submitGuess_def split: option.splits)
  with assms(1) have d: "distinct (fold setAdd guess (usedLetters game))"
    by (simp add: usedLettersIsSet_def distinct_fold_setAdd)
  have c: "currentGame (state (finalizeGame game' now today m0)) = currentGame (state m0)"
    for game' m0
    by (simp add: finalizeGame_def Let_def state_saveState checkAchievements_def)
  from assms(2) g d show ?thesis
    by (auto simp: submitGuess_def Let_def state_saveState usedLettersIsSet_def c
        checkGameStatus_def split: if_splits)
qed

text \<open>
  Claim C9. When the storage accepts the write (and \<open>usedLetters\<close> is a set, as it is
  for every \<open>Set\<close>), \<open>loadState\<close> after \<open>saveState\<close> assigns to the state a value equal
  to the state that was saved; in particular the \<open>usedLetters\<close> set of the current game
  and the unlocked achievements, which are parts of it, are restored as they were.
\<close>

theorem save_load_roundtrip:
  assumes "writable (localStorage m)" and "usedLettersIsSet (state m)"
  shows "loadState (localStorage (saveState m)) = Some (encodeState (state m))"
  using assms
  by (simp add: loadState_def saveState_def setItem_def getItem_def parse_stringify
      plain_encodeState valid_encodeState restore_encodeState)

text \<open>
  Witness for C9: a manager with the game \<open>openGame\<close> in progress (used letters
  \<open>H, E, L, O\<close>) and the achievement \<open>first_win\<close> unlocked.
\<close>

theorem save_load_roundtrip_witness:
  "loadState (localStorage (saveState
      (freshManager\<lparr>state := initialState\<lparr>currentGame := Some openGame,
           achievements := [\<lparr>achId = ''first_win'', unlockedAt = 10\<rparr>]\<rparr>\<rparr>)))
   = Some (encodeState (initialState\<lparr>currentGame := Some openGame,
           achievements := [\<lparr>achId = ''first_win'', unlockedAt = 10\<rparr>]\<rparr>))"
proof -
  let ?m = "freshManager\<lparr>state := initialState\<lparr>currentGame := Some openGame,
           achievements := [\<lparr>achId = ''first_win'', unlockedAt = 10\<rparr>]\<rparr>\<rparr>"
  have w: "writable (localStorage ?m)"
    by (simp add: freshManager_def emptyStorage_def)
  have u: "usedLettersIsSet (state ?m)"
    by (simp add: usedLettersIsSet_def openGame_def)
  from save_load_roundtrip[OF w u] show ?thesis by simp
qed

section \<open>Derived statistics: proofs\<close>

lemma fold_guessCount:
  "fold (\<lambda>game sum. sum + guessCount game) xs a = a + sum_list (map guessCount xs)"
  by (induction xs arbitrary: a) simp_all

text \<open>
  Claim C8, as amended. \<open>getStatistics\<close> returns as \<open>winPercentage\<close> the value of
  \<open>Math.round((gamesWon / gamesPlayed) * 100)\<close> in double arithmetic, and 0 when
  \<open>gamesPlayed\<close> is 0. As \<open>averageGuesses\<close> it returns the number 0 when the history
  has no won game, and otherwise the text \<open>(total / count).toFixed(1)\<close>, where \<open>total\<close>
  is the sum of the guess counts and \<open>count\<close> the number of the won games of the
  history: the mean over the won games only, rounded to one decimal place and
  formatted as text.
\<close>

theorem derived_statistics:
  "winPercentage (getStatistics s) =
     (if gamesPlayed (statistics s) = 0 then 0
      else mathRound (fmul (fdiv (int (gamesWon (statistics s)))
                                 (int (gamesPlayed (statistics s)))) 100)) \<and>
   averageGuesses (getStatistics s) =
     (if filter (\<lambda>game. h_gameStatus game = Won) (gameHistory s) = [] then AvgNumber 0
      else AvgText (toFixed1 (fdiv
             (int (sum_list (map guessCount
                     (filter (\<lambda>game. h_gameStatus game = Won) (gameHistory s)))))
             (int (length (filter (\<lambda>game. h_gameStatus game = Won) (gameHistory s)))))))"
  by (simp add: getStatistics_def Let_def statistics.defs calculateAverageGuesses_def
      fold_guessCount)

text \<open>
  Claim C8 as stated fails: for a history of three won games with 1, 1 and 2 guesses
  the mean guess count is \<open>4/3\<close>, and \<open>averageGuesses\<close> is the text \<open>1.3\<close>, not that
  number.
\<close>

theorem average_guesses_counterexample:
  "averageGuesses (getStatistics threeWins) = AvgText ''1.3'' \<and>
   meanGuesses (gameHistory threeWins) = 4 / 3 \<and>
   averageGuesses (getStatistics threeWins) \<noteq> AvgNumber (meanGuesses (gameHistory threeWins))"
proof -
  have a: "calculateAverageGuesses threeWins = AvgText ''1.3''" by code_simp
  have b: "meanGuesses (gameHistory threeWins) = 4 / 3"
    by (simp add: meanGuesses_def threeWins_def wonIn_def initialState_def)
  have c: "averageGuesses (getStatistics threeWins) = calculateAverageGuesses threeWins"
    by (simp add: getStatistics_def Let_def statistics.defs)
  from a b c show ?thesis by simp
qed

subsection \<open>Accuracy of the double arithmetic\<close>

text \<open>
  The operations on doubles round correctly: the relative error of a quotient or a
  product is at most \<open>2^-53\<close>. So the text returned as \<open>averageGuesses\<close> is a
  decimal \<open>n / 10\<close> within \<open>1/20\<close> (and that rounding error) of the mean guess count of
  the won games, and \<open>winPercentage\<close> is within \<open>1/2\<close> (and the rounding errors) of the
  exact percentage.
\<close>

lemma nearestInt_floor: "nearestInt (m, e) = \<lfloor>valueOf (m, e) + 1 / 2\<rfloor>"
proof (cases "e \<ge> 0")
  case True
  then have "valueOf (m, e) = of_int (m * 2 ^ nat e)"
    by (simp add: valueOf_def power_int_def)
  then have "\<lfloor>valueOf (m, e) + 1 / 2\<rfloor> = m * 2 ^ nat e"
    by (simp only:) linarith
  with True show ?thesis by (simp add: nearestInt_def)
next
  case False
  then have "valueOf (m, e) = of_int m / 2 ^ nat (- e)"
    by (simp add: valueOf_def power_int_def field_simps)
  then have "valueOf (m, e) + 1 / 2 = of_int (2 * m + 2 ^ nat (- e)) / of_int (2 * 2 ^ nat (- e))"
    by (simp add: field_simps)
  then have "\<lfloor>valueOf (m, e) + 1 / 2\<rfloor> = (2 * m + 2 ^ nat (- e)) div (2 * 2 ^ nat (- e))"
    by (simp only: floor_divide_of_int_eq)
  with False show ?thesis by (simp add: nearestInt_def)
qed


lemma roundTo53_error:
  assumes n: "0 < n" and d: "0 \<le> d" "d < 1"
    and st: "sticky \<longleftrightarrow> d \<noteq> 0" and big: "sticky \<Longrightarrow> 53 < bitlen n"
  shows "\<bar>valueOf (roundTo53 n sticky e) - (of_int n + d) * 2 powi e\<bar>
           \<le> (of_int n + d) * 2 powi e / 2 ^ 53"
proof (cases "bitlen n \<le> 53")
  case True
  with big st have "d = 0" by auto
  with True n show ?thesis by (simp add: roundTo53_def valueOf_def)
next
  case False
  define s where "s = nat (bitlen n - 53)"
  define q where "q = n div 2 ^ s"
  define r where "r = n mod 2 ^ s"
  define half :: int where "half = 2 ^ (s - 1)"
  from False have s1: "1 \<le> s" by (simp add: s_def)
  then have two: "(2::int) ^ s = 2 * half"
    by (cases s) (simp_all add: half_def)
  have nqr: "n = q * 2 ^ s + r"
    unfolding q_def r_def by (rule div_mult_mod_eq[symmetric])
  have r0: "0 \<le> r" and r1: "r < 2 * half"
    unfolding r_def two[symmetric] by simp_all
  from bitlen_bounds[OF n] have "2 ^ nat (bitlen n - 1) \<le> n" by simp
  moreover from False have "nat (bitlen n - 1) = (s - 1) + 53"
    by (simp add: s_def)
  ultimately have lower: "half * 2 ^ 53 \<le> n"
    by (simp add: half_def power_add)
  define q' where "q' = (if r > half \<or> (r = half \<and> (sticky \<or> odd q)) then q + 1 else q)"
  have res: "roundTo53 n sticky e = (q', e + int s)"
    using False by (simp add: roundTo53_def Let_def q'_def q_def r_def half_def s_def)
  have err: "\<bar>of_int (q' * 2 ^ s) - (of_int n + d)\<bar> \<le> (of_int half :: real)"
  proof (cases "r > half \<or> (r = half \<and> (sticky \<or> odd q))")
    case True
    then have "q' = q + 1" by (simp add: q'_def)
    then have "of_int (q' * 2 ^ s) - (of_int n + d) = of_int (2 * half - r) - d"
      by (simp add: nqr two algebra_simps)
    moreover have "of_int (2 * half - r) - d \<le> of_int half"
      using True d by auto
    moreover have "0 \<le> of_int (2 * half - r) - d"
    proof -
      from r1 have "1 \<le> 2 * half - r" by simp
      then have "(1::real) \<le> of_int (2 * half - r)" by linarith
      with d show ?thesis by linarith
    qed
    ultimately show ?thesis by simp
  next
    case F: False
    then have q: "q' = q" by (simp add: q'_def)
    then have eq: "of_int (q' * 2 ^ s) - (of_int n + d) = - (of_int r + d)"
      by (simp add: nqr algebra_simps)
    have "of_int r + d \<le> of_int half"
    proof (cases "r = half")
      case True
      with F have "\<not> sticky" by simp
      with st have "d = 0" by simp
      with True show ?thesis by simp
    next
      case False
      with F have "r \<le> half - 1" by simp
      then have "of_int r \<le> (of_int half :: real) - 1" by linarith
      with d show ?thesis by linarith
    qed
    moreover have "0 \<le> of_int r + d" using r0 d by simp
    ultimately show ?thesis unfolding eq by simp
  qed
  have pos: "(0::real) < 2 powi e" by simp
  have "valueOf (roundTo53 n sticky e) - (of_int n + d) * 2 powi e
        = (of_int (q' * 2 ^ s) - (of_int n + d)) * 2 powi e"
    by (simp add: res valueOf_def power_int_add algebra_simps)
  then have "\<bar>valueOf (roundTo53 n sticky e) - (of_int n + d) * 2 powi e\<bar>
        = \<bar>of_int (q' * 2 ^ s) - (of_int n + d)\<bar> * 2 powi e"
    by (simp add: abs_mult)
  also have "\<dots> \<le> of_int half * 2 powi e"
    using err pos by (simp add: mult_right_mono)
  also have "of_int half * 2 powi e \<le> (of_int n + d) / 2 ^ 53 * 2 powi e"
  proof -
    from lower have "of_int half * (2::real) ^ 53 \<le> of_int n"
      by (metis of_int_le_iff of_int_mult of_int_numeral of_int_power)
    with d have "of_int half * (2::real) ^ 53 \<le> of_int n + d" by linarith
    then have "of_int half \<le> (of_int n + d) / (2::real) ^ 53"
      by (simp add: pos_le_divide_eq)
    with pos show ?thesis by (simp add: mult_right_mono)
  qed
  finally show ?thesis by simp
qed


lemma fdiv_error:
  assumes a: "0 \<le> a" and b: "0 < b"
  shows "\<bar>valueOf (fdiv a b) - of_int a / of_int b\<bar> \<le> of_int a / of_int b / 2 ^ 53"
proof (cases "a = 0")
  case True
  then show ?thesis by (simp add: fdiv_def valueOf_def)
next
  case False
  with a have apos: "0 < a" by simp
  define k where "k = nat (55 + bitlen b)"
  define Q where "Q = (a * 2 ^ k) div b"
  define R where "R = (a * 2 ^ k) mod b"
  define d :: real where "d = of_int R / of_int b"
  have R0: "0 \<le> R" and R1: "R < b" using b by (simp_all add: R_def)
  have d0: "0 \<le> d" and d1: "d < 1" using R0 R1 b by (simp_all add: d_def)
  have dz: "R \<noteq> 0 \<longleftrightarrow> d \<noteq> 0" using b by (simp add: d_def)
  have split: "a * 2 ^ k = Q * b + R"
    unfolding Q_def R_def by (rule div_mult_mod_eq[symmetric])
  have val: "(of_int Q + d) * 2 powi (- int k) = of_int a / of_int b"
  proof -
    have "(of_int Q + d) * of_int b = (of_int (Q * b + R) :: real)"
      using b by (simp add: d_def field_simps)
    also have "\<dots> = of_int a * 2 ^ k" by (simp flip: split)
    finally have "of_int Q + d = of_int a * 2 ^ k / of_int b"
      using b by (simp add: field_simps)
    then show ?thesis by (simp add: power_int_minus field_simps)
  qed
  have "b < 2 ^ nat (bitlen b)" using bitlen_bounds[OF b] by simp
  moreover have "(2::int) ^ k = 2 ^ 55 * 2 ^ nat (bitlen b)"
    using bitlen_nonneg[of b] by (simp add: k_def nat_add_distrib power_add)
  ultimately have "2 ^ 55 * b \<le> 2 ^ k" by simp
  also have "\<dots> \<le> a * 2 ^ k" using apos by simp
  finally have "2 ^ 55 * b \<le> a * 2 ^ k" .
  then have "(2 ^ 55 * b) div b \<le> (a * 2 ^ k) div b"
    using b by (intro zdiv_mono1) simp_all
  then have "2 ^ 55 \<le> (a * 2 ^ k) div b"
    using b by simp
  then have Qbig: "2 ^ 55 \<le> Q" by (simp add: Q_def)
  moreover have "(0::int) < 2 ^ 55" by simp
  ultimately have Qpos: "0 < Q" by linarith
  from Qbig have bl: "53 < bitlen Q"
    using bitlen_ge_iff_power[of 56 Q] by simp
  have f: "fdiv a b = roundTo53 Q (R \<noteq> 0) (- int k)"
    using False by (simp add: fdiv_def Let_def Q_def R_def k_def)
  from roundTo53_error[OF Qpos d0 d1 dz, of "- int k"] bl
  show ?thesis unfolding f val by simp
qed


lemma toFixed1_error:
  assumes a: "0 \<le> a" and b: "0 < b"
  shows "\<exists>n. toFixed1 (fdiv a b) = decimal (n div 10) @ ''.'' @ decimal (n mod 10) \<and>
             \<bar>real n / 10 - of_int a / of_int b\<bar> \<le> 1 / 20 + of_int a / of_int b / 2 ^ 53"
proof -
  obtain m e where me: "fdiv a b = (m, e)" by (cases "fdiv a b") auto
  define x :: real where "x = of_int a / of_int b"
  define v where "v = valueOf (m, e)"
  have x0: "0 \<le> x" using a b by (simp add: x_def)
  from fdiv_error[OF a b] have vx: "\<bar>v - x\<bar> \<le> x / 2 ^ 53"
    by (simp add: v_def x_def me)
  have "x / 2 ^ 53 \<le> x" using x0 by (simp add: field_simps)
  with vx have v0: "0 \<le> v" by linarith
  define z where "z = nearestInt (10 * m, e)"
  have zv: "z = \<lfloor>10 * v + 1 / 2\<rfloor>"
    by (simp add: z_def nearestInt_floor v_def valueOf_def mult.assoc)
  with v0 have z0: "0 \<le> z" by simp
  have "\<bar>of_int z - 10 * v\<bar> \<le> 1 / 2" unfolding zv by linarith
  moreover from z0 have "real (nat z) = of_int z" by simp
  ultimately have nz: "\<bar>real (nat z) / 10 - v\<bar> \<le> 1 / 20" by linarith
  have "toFixed1 (fdiv a b) = decimal (nat z div 10) @ ''.'' @ decimal (nat z mod 10)"
    by (simp add: toFixed1_def me z_def Let_def)
  moreover from nz vx have "\<bar>real (nat z) / 10 - x\<bar> \<le> 1 / 20 + x / 2 ^ 53" by linarith
  ultimately show ?thesis unfolding x_def by blast
qed

lemma fmul_error:
  assumes "0 \<le> m" "0 \<le> c"
  shows "\<bar>valueOf (fmul (m, e) c) - valueOf (m, e) * of_int c\<bar>
           \<le> valueOf (m, e) * of_int c / 2 ^ 53"
proof (cases "m * c = 0")
  case True
  then show ?thesis by (auto simp: fmul_def roundTo53_def valueOf_def)
next
  case False
  with assms have "0 < m * c" by (simp add: zero_less_mult_iff less_le)
  from roundTo53_error[OF this, of 0 False e]
  show ?thesis by (simp add: fmul_def valueOf_def algebra_simps)
qed


lemma averageGuesses_error:
  assumes "filter (\<lambda>game. h_gameStatus game = Won) (gameHistory s) \<noteq> []"
  shows "\<exists>n. averageGuesses (getStatistics s)
               = AvgText (decimal (n div 10) @ ''.'' @ decimal (n mod 10)) \<and>
             \<bar>real n / 10 - real_of_rat (meanGuesses (gameHistory s))\<bar>
               \<le> 1 / 20 + real_of_rat (meanGuesses (gameHistory s)) / 2 ^ 53"
proof -
  define won where "won = filter (\<lambda>game. h_gameStatus game = Won) (gameHistory s)"
  define total where "total = sum_list (map guessCount won)"
  from assms have len: "0 < int (length won)" by (simp add: won_def)
  have avg: "averageGuesses (getStatistics s)
               = AvgText (toFixed1 (fdiv (int total) (int (length won))))"
    using assms
    by (simp add: getStatistics_def Let_def statistics.defs calculateAverageGuesses_def
        fold_guessCount won_def total_def)
  have mean: "real_of_rat (meanGuesses (gameHistory s))
                = of_int (int total) / of_int (int (length won))"
    using assms
    by (simp add: meanGuesses_def Let_def won_def total_def of_rat_divide)
  from toFixed1_error[OF _ len, of "int total"] show ?thesis
    unfolding avg mean by simp
qed

lemma winPercentage_error:
  assumes "0 < gamesPlayed (statistics s)"
  shows "\<bar>real_of_int (winPercentage (getStatistics s))
            - 100 * (real (gamesWon (statistics s)) / real (gamesPlayed (statistics s)))\<bar>
           \<le> 1 / 2 + 300 * (real (gamesWon (statistics s)) / real (gamesPlayed (statistics s)))
                   / 2 ^ 53"
proof -
  define a where "a = int (gamesWon (statistics s))"
  define b where "b = int (gamesPlayed (statistics s))"
  define x :: real where "x = of_int a / of_int b"
  have a0: "0 \<le> a" and b0: "0 < b" using assms by (simp_all add: a_def b_def)
  have x0: "0 \<le> x" using a0 b0 by (simp add: x_def)
  obtain m e where me: "fdiv a b = (m, e)" by (cases "fdiv a b") auto
  define v where "v = valueOf (m, e)"
  from fdiv_error[OF a0 b0] have vx: "\<bar>v - x\<bar> \<le> x / 2 ^ 53"
    by (simp add: v_def x_def me)
  have small: "x / 2 ^ 53 \<le> x" using x0 by (simp add: field_simps)
  with vx have v0: "0 \<le> v" and v2: "v \<le> 2 * x" by linarith+
  have "(0::real) < 2 powi e" by simp
  with v0 have m0: "0 \<le> m"
    by (simp add: v_def valueOf_def zero_le_mult_iff not_le[symmetric])
  define w where "w = valueOf (fmul (m, e) 100)"
  from fmul_error[OF m0, of 100 e] have wv: "\<bar>w - v * 100\<bar> \<le> v * 100 / 2 ^ 53"
    by (simp add: w_def v_def)
  have wp: "winPercentage (getStatistics s) = \<lfloor>w + 1 / 2\<rfloor>"
  proof -
    obtain m' e' where me': "fmul (m, e) 100 = (m', e')" by (cases "fmul (m, e) 100") auto
    with assms show ?thesis
      by (simp add: getStatistics_def Let_def statistics.defs mathRound_def
          nearestInt_floor w_def me[unfolded a_def b_def])
  qed
  define t where "t = x / 2 ^ 53"
  define u where "u = v * 100 / 2 ^ 53"
  define z where "z = real_of_int \<lfloor>w + 1 / 2\<rfloor>"
  have r: "\<bar>z - w\<bar> \<le> 1 / 2" unfolding z_def by linarith
  have ut: "u \<le> 200 * t"
    using v2 by (simp add: u_def t_def field_simps)
  from wv have wv': "\<bar>w - v * 100\<bar> \<le> u" by (simp add: u_def)
  from vx have vx': "\<bar>v - x\<bar> \<le> t" by (simp add: t_def)
  from r ut wv' vx' have "\<bar>z - 100 * x\<bar> \<le> 1 / 2 + 300 * t" by linarith
  then have "\<bar>real_of_int \<lfloor>w + 1 / 2\<rfloor> - 100 * x\<bar> \<le> 1 / 2 + 300 * x / 2 ^ 53"
    by (simp add: z_def t_def)
  then show ?thesis
    unfolding wp x_def a_def b_def by simp
qed

text \<open>
  Two values of the derived fields: 7 wins in 10 games are 70 percent, and 29 wins in
  200 games are 14 percent (the double product \<open>(29 / 200) * 100\<close> lies just below
  \<open>14.5\<close>).
\<close>

lemma winPercentage_values:
  "mathRound (fmul (fdiv 7 10) 100) = 70 \<and> mathRound (fmul (fdiv 29 200) 100) = 14"
  by code_simp

end
